theory Spec2Isabelle
  imports Complex_Main "HOL-Library.Multiset" "HOL-Library.Product_Lexorder"
begin

section \<open>Errors\<close>

text \<open>
  Every exception of the Python code is a value. The names follow the taxonomy of the
  specification where it names the failure, and Python's own names otherwise.
\<close>

datatype error =
    InvalidParameterError
  | EmptyInputError
  | ValueError
  | KeyError string
  | IndexError
  | TypeError
  | HTTPException nat

section \<open>numpy: quantile\<close>

text \<open>
  \<^verbatim>\<open>np.quantile(a, q)\<close> with the default method (linear interpolation): the array is
  sorted, the virtual index is \<open>q * (n - 1)\<close>, and the result interpolates between the
  element below it and the next one (the next index is clipped to \<open>n - 1\<close>).
  A quantile outside \<open>[0, 1]\<close> is rejected with ValueError. Floating point numbers are
  modelled as reals.
\<close>

definition np_quantile :: "real list \<Rightarrow> real \<Rightarrow> error + real" where
  "np_quantile a q =
     (if \<not> (0 \<le> q \<and> q \<le> 1) then Inl ValueError
      else if a = [] then Inl IndexError
      else
        let arr = sort a;
            n = length arr;
            virtual_index = q * real (n - 1);
            previous = nat \<lfloor>virtual_index\<rfloor>;
            nxt = min (previous + 1) (n - 1);
            gamma = virtual_index - real previous
        in Inr (arr ! previous + (arr ! nxt - arr ! previous) * gamma))"

section \<open>pandas: data frames held by reference\<close>

datatype cell = Num real | IntC int | Flag bool | Txt string | Date int

text \<open>
  A DataFrame is its index length and its columns in order. pandas keeps every column at
  the length of the index; \<open>wf_frame\<close> states that invariant.
\<close>

record DataFrame =
  nrows :: nat
  cols :: "(string \<times> cell list) list"

definition wf_frame :: "DataFrame \<Rightarrow> bool" where
  "wf_frame df = list_all (\<lambda>kv. length (snd kv) = nrows df) (cols df)"

text \<open>\<^verbatim>\<open>df[name]\<close>: the column, or KeyError.\<close>

definition getitem :: "DataFrame \<Rightarrow> string \<Rightarrow> error + cell list" where
  "getitem df name =
     (case map_of (cols df) name of None \<Rightarrow> Inl (KeyError name) | Some v \<Rightarrow> Inr v)"

text \<open>
  \<^verbatim>\<open>df[name] = values\<close>: an existing column is overwritten in its position, a new one is
  appended; a value of another length than the index is rejected.
\<close>

fun assign_col :: "(string \<times> cell list) list \<Rightarrow> string \<Rightarrow> cell list \<Rightarrow> (string \<times> cell list) list" where
  "assign_col [] name v = [(name, v)]"
| "assign_col ((k, w) # cs) name v =
     (if k = name then (k, v) # cs else (k, w) # assign_col cs name v)"

definition setitem :: "DataFrame \<Rightarrow> string \<Rightarrow> cell list \<Rightarrow> error + DataFrame" where
  "setitem df name v =
     (if length v \<noteq> nrows df then Inl ValueError
      else Inr (df\<lparr>cols := assign_col (cols df) name v\<rparr>))"

text \<open>Conversion of one cell to float64, as \<^verbatim>\<open>to_numpy\<close> on numeric columns does.\<close>

fun to_float :: "cell \<Rightarrow> error + real" where
  "to_float (Num x) = Inr x"
| "to_float (IntC i) = Inr (real_of_int i)"
| "to_float (Flag b) = Inr (if b then 1 else 0)"
| "to_float (Txt s) = Inl ValueError"
| "to_float (Date d) = Inl TypeError"

fun sequence :: "(error + 'a) list \<Rightarrow> error + 'a list" where
  "sequence [] = Inr []"
| "sequence (x # xs) =
     (case x of Inl e \<Rightarrow> Inl e
      | Inr y \<Rightarrow> (case sequence xs of Inl e \<Rightarrow> Inl e | Inr ys \<Rightarrow> Inr (y # ys)))"

text \<open>
  \<^verbatim>\<open>df[["amount", "tx_per_account"]].to_numpy()\<close>: the two columns, row by row, as a
  float matrix.
\<close>

definition feature_matrix :: "DataFrame \<Rightarrow> error + (real list) list" where
  "feature_matrix df =
     (case getitem df ''amount'' of Inl e \<Rightarrow> Inl e
      | Inr a \<Rightarrow>
     (case getitem df ''tx_per_account'' of Inl e \<Rightarrow> Inl e
      | Inr f \<Rightarrow>
     (case sequence (map to_float a) of Inl e \<Rightarrow> Inl e
      | Inr xs \<Rightarrow>
     (case sequence (map to_float f) of Inl e \<Rightarrow> Inl e
      | Inr ys \<Rightarrow> Inr (map (\<lambda>(x, y). [x, y]) (zip xs ys))))))"

text \<open>Objects live in a heap; a variable holds a reference.\<close>

type_synonym ref = nat
type_synonym heap = "ref \<Rightarrow> DataFrame"

section \<open>scikit-learn: the isolation forest\<close>

text \<open>
  The forest is an external library. Its trees are an opaque capability: \<open>score_samples\<close>
  gives the raw score of one sample from the generator state the trees were grown with and
  the training matrix; \<open>offset_of\<close> gives the offset the library derives from the
  contamination. The library defines \<open>decision_function = score_samples - offset_\<close>.
\<close>

record forest_lib =
  score_samples :: "nat \<Rightarrow> real list list \<Rightarrow> real list \<Rightarrow> real"
  offset_of :: "nat \<Rightarrow> real \<Rightarrow> real list list \<Rightarrow> real"

record IsolationForest =
  contamination :: real
  random_state :: "nat option"

record fitted_forest =
  rng :: nat
  train :: "real list list"
  offset :: real

text \<open>
  An integer \<open>random_state\<close> seeds a generator of its own; without one the library draws
  from the process-wide generator, whose current state is \<open>g\<close>.
\<close>

definition check_random_state :: "nat \<Rightarrow> nat option \<Rightarrow> nat" where
  "check_random_state g rs = (case rs of None \<Rightarrow> g | Some seed \<Rightarrow> seed)"

text \<open>
  Modelled from the spec: the parameter and input validation of the library's \<open>fit\<close>,
  which is not part of the repository. The specification gives the failure modes:
  contamination outside (0, 0.5] is an InvalidParameterError, an empty transaction set an
  EmptyInputError (fitting requires at least one sample). The parameters are checked first.
\<close>

definition fit :: "forest_lib \<Rightarrow> nat \<Rightarrow> IsolationForest \<Rightarrow> real list list \<Rightarrow> error + fitted_forest" where
  "fit lib g est X =
     (if \<not> (0 < contamination est \<and> contamination est \<le> 1 / 2) then Inl InvalidParameterError
      else if X = [] then Inl EmptyInputError
      else
        let r = check_random_state g (random_state est)
        in Inr \<lparr>rng = r, train = X, offset = offset_of lib r (contamination est) X\<rparr>)"

definition decision_function :: "forest_lib \<Rightarrow> fitted_forest \<Rightarrow> real list list \<Rightarrow> real list" where
  "decision_function lib m X = map (\<lambda>x. score_samples lib (rng m) (train m) x - offset m) X"

section \<open>anomaly.py: detect\_anomalies\<close>

text \<open>\<^verbatim>\<open>df["anomaly_score"] >= threshold\<close>, element by element.\<close>

fun ge_threshold :: "real \<Rightarrow> cell \<Rightarrow> error + cell" where
  "ge_threshold t (Num x) = Inr (Flag (x \<ge> t))"
| "ge_threshold t (IntC i) = Inr (Flag (real_of_int i \<ge> t))"
| "ge_threshold t (Flag b) = Inr (Flag ((if b then 1 else 0) \<ge> t))"
| "ge_threshold t (Txt s) = Inl TypeError"
| "ge_threshold t (Date d) = Inl TypeError"

text \<open>
  The function works on the object its argument refers to: each statement that assigns a
  column updates the heap at \<open>df\<close>, also when a later statement raises. The result is the
  reference it was given, or the error, together with the heap. Arithmetic is exact in this
  definition; the rounding of float64 is written out in \<open>detect_anomalies_fl\<close> below.
\<close>

definition detect_anomalies ::
  "forest_lib \<Rightarrow> nat \<Rightarrow> heap \<Rightarrow> ref \<Rightarrow> real \<Rightarrow> (error + ref) \<times> heap" where
  "detect_anomalies lib g h df c =
     (case feature_matrix (h df) of Inl e \<Rightarrow> (Inl e, h)
      | Inr X \<Rightarrow>
     (case fit lib g \<lparr>contamination = c, random_state = Some 42\<rparr> X of Inl e \<Rightarrow> (Inl e, h)
      | Inr fitted \<Rightarrow>
        let scores = map uminus (decision_function lib fitted X) in
     (case setitem (h df) ''anomaly_score'' (map Num scores) of Inl e \<Rightarrow> (Inl e, h)
      | Inr df1 \<Rightarrow>
        let h1 = h(df := df1) in
     (case np_quantile scores (1 - c) of Inl e \<Rightarrow> (Inl e, h1)
      | Inr threshold \<Rightarrow>
     (case getitem (h1 df) ''anomaly_score'' of Inl e \<Rightarrow> (Inl e, h1)
      | Inr col \<Rightarrow>
     (case sequence (map (ge_threshold threshold) col) of Inl e \<Rightarrow> (Inl e, h1)
      | Inr flags \<Rightarrow>
     (case setitem (h1 df) ''is_anomaly'' flags of Inl e \<Rightarrow> (Inl e, h1)
      | Inr df2 \<Rightarrow> (Inr df, h1(df := df2)))))))))"


section \<open>anomaly.py: detect\_anomalies in float64 arithmetic\<close>

text \<open>
  \<open>np_quantile\<close> and \<open>detect_anomalies\<close> above compute in exact arithmetic. The program
  computes in float64: the result of every arithmetic operation is rounded. In this section
  \<open>rnd\<close> is that rounding; it is a parameter, and nothing is assumed about it. Comparisons,
  negation, \<open>floor\<close> and sorting are exact. With the identity for \<open>rnd\<close> the definitions
  of this section are those above.
\<close>

text \<open>
  numpy's \<^verbatim>\<open>_lerp(a, b, t)\<close>: \<^verbatim>\<open>a + (b - a) * t\<close>, and \<^verbatim>\<open>b - (b - a) * (1 - t)\<close> where
  \<^verbatim>\<open>t >= 0.5\<close>.
\<close>

definition lerp :: "(real \<Rightarrow> real) \<Rightarrow> real \<Rightarrow> real \<Rightarrow> real \<Rightarrow> real" where
  "lerp rnd a b t =
     (let diff_b_a = rnd (b - a)
      in if 1 / 2 \<le> t then rnd (b - rnd (diff_b_a * rnd (1 - t)))
         else rnd (a + rnd (diff_b_a * t)))"

text \<open>Indexing as Python has it: a negative index counts from the end.\<close>

definition item :: "real list \<Rightarrow> int \<Rightarrow> real" where
  "item arr i = arr ! nat (if i < 0 then int (length arr) + i else i)"

text \<open>
  \<^verbatim>\<open>np.quantile(a, q)\<close>, method linear: the virtual index \<^verbatim>\<open>(n - 1) * q\<close>, the index
  below it and the next one (both \<open>-1\<close>, the last element, when the virtual index reaches
  \<open>n - 1\<close>, both \<open>0\<close> when it is negative), the weight \<^verbatim>\<open>virtual_index - previous_index\<close>,
  and the interpolation between the two elements of the sorted array.
\<close>

definition np_quantile_fl :: "(real \<Rightarrow> real) \<Rightarrow> real list \<Rightarrow> real \<Rightarrow> error + real" where
  "np_quantile_fl rnd a q =
     (if \<not> (0 \<le> q \<and> q \<le> 1) then Inl ValueError
      else if a = [] then Inl IndexError
      else
        let arr = sort a;
            n = length arr;
            virtual_index = rnd (real (n - 1) * q);
            previous_index = (if real (n - 1) \<le> virtual_index then - 1
                              else if virtual_index < 0 then 0 else \<lfloor>virtual_index\<rfloor>);
            next_index = (if real (n - 1) \<le> virtual_index then - 1
                          else if virtual_index < 0 then 0 else \<lfloor>virtual_index\<rfloor> + 1);
            gamma = rnd (virtual_index - of_int previous_index)
        in Inr (lerp rnd (item arr previous_index) (item arr next_index) gamma))"

text \<open>The library's \<^verbatim>\<open>score_samples(X) - offset_\<close>, a float subtraction.\<close>

definition decision_function_fl ::
  "(real \<Rightarrow> real) \<Rightarrow> forest_lib \<Rightarrow> fitted_forest \<Rightarrow> real list list \<Rightarrow> real list" where
  "decision_function_fl rnd lib m X =
     map (\<lambda>x. rnd (score_samples lib (rng m) (train m) x - offset m)) X"

text \<open>
  The function \<open>detect_anomalies\<close> of anomaly.py, statement by statement as above; the
  quantile is taken at the float \<^verbatim>\<open>1 - contamination\<close>.
\<close>

definition detect_anomalies_fl ::
  "(real \<Rightarrow> real) \<Rightarrow> forest_lib \<Rightarrow> nat \<Rightarrow> heap \<Rightarrow> ref \<Rightarrow> real \<Rightarrow> (error + ref) \<times> heap" where
  "detect_anomalies_fl rnd lib g h df c =
     (case feature_matrix (h df) of Inl e \<Rightarrow> (Inl e, h)
      | Inr X \<Rightarrow>
     (case fit lib g \<lparr>contamination = c, random_state = Some 42\<rparr> X of Inl e \<Rightarrow> (Inl e, h)
      | Inr fitted \<Rightarrow>
        let scores = map uminus (decision_function_fl rnd lib fitted X) in
     (case setitem (h df) ''anomaly_score'' (map Num scores) of Inl e \<Rightarrow> (Inl e, h)
      | Inr df1 \<Rightarrow>
        let h1 = h(df := df1) in
     (case np_quantile_fl rnd scores (rnd (1 - c)) of Inl e \<Rightarrow> (Inl e, h1)
      | Inr threshold \<Rightarrow>
     (case getitem (h1 df) ''anomaly_score'' of Inl e \<Rightarrow> (Inl e, h1)
      | Inr col \<Rightarrow>
     (case sequence (map (ge_threshold threshold) col) of Inl e \<Rightarrow> (Inl e, h1)
      | Inr flags \<Rightarrow>
     (case setitem (h1 df) ''is_anomaly'' flags of Inl e \<Rightarrow> (Inl e, h1)
      | Inr df2 \<Rightarrow> (Inr df, h1(df := df2)))))))))"

text \<open>
  The rounding of IEEE 754 binary64, to the nearest number with 53 significant bits, a tie
  going to the even one. Overflow and subnormal numbers are not modelled.
\<close>

definition round_half_even :: "real \<Rightarrow> int" where
  "round_half_even y =
     (let f = \<lfloor>y\<rfloor>; r = y - of_int f
      in if r < 1 / 2 then f else if 1 / 2 < r then f + 1 else if even f then f else f + 1)"

definition binary64 :: "real \<Rightarrow> real" where
  "binary64 x =
     (if x = 0 then 0
      else
        let e = \<lfloor>log 2 \<bar>x\<bar>\<rfloor>;
            ulp = 2 powr (of_int e - 52)
        in of_int (round_half_even (x / ulp)) * ulp)"

section \<open>The datamart\<close>

text \<open>
  The tables the scripts read. A timestamp is a number of microseconds; the \<open>days\<close> of a
  time difference is its floor in whole days. Identifiers are integers and amounts are
  finite, so the tables hold no missing values.
\<close>

definition day :: int where
  "day = 86400000000"

record transaction =
  transaction_id :: int
  account_id :: int
  amount :: real
  transaction_date :: int
  transaction_type :: string
  time_id :: int
  client_id :: int

record account =
  account_id_acct :: int
  client_id_acct :: int
  account_type :: string
  opened_date :: int

record datamart =
  fact_transactions :: "transaction list"
  dim_accounts :: "account list"
  dim_time :: "int list"

section \<open>pandas: aggregation\<close>

text \<open>A float64 value: a finite number, the missing value NaN, or an infinity.\<close>

datatype float64 = Finite real | NaN | PosInf | NegInf

text \<open>
  Division of numeric columns and numpy scalars follows IEEE 754: a zero divisor raises
  nothing and gives an infinity, or NaN for \<open>0 / 0\<close>.
\<close>

definition true_divide :: "real \<Rightarrow> real \<Rightarrow> float64" where
  "true_divide a b =
     (if b \<noteq> 0 then Finite (a / b)
      else if 0 < a then PosInf else if a < 0 then NegInf else NaN)"

definition mean :: "real list \<Rightarrow> float64" where
  "mean xs = (if xs = [] then NaN else Finite (sum_list xs / real (length xs)))"

text \<open>\<^verbatim>\<open>std\<close> is the sample standard deviation (ddof = 1), missing below two values.\<close>

definition std :: "real list \<Rightarrow> float64" where
  "std xs =
     (if length xs < 2 then NaN
      else
        let m = sum_list xs / real (length xs)
        in Finite (sqrt (sum_list (map (\<lambda>x. (x - m)\<^sup>2) xs) / real (length xs - 1))))"

text \<open>
  \<^verbatim>\<open>lambda d: d.diff().dt.days.dropna().mean()\<close>: the first difference is missing and is
  dropped; the others are whole days.
\<close>

definition avg_delay :: "int list \<Rightarrow> float64" where
  "avg_delay d = mean (map (\<lambda>(a, b). real_of_int ((b - a) div day)) (zip d (tl d)))"

definition nunique :: "int list \<Rightarrow> nat" where
  "nunique xs = length (remdups xs)"

text \<open>\<^verbatim>\<open>groupby(key)\<close>: one group per key, keys ascending, rows in their order.\<close>

definition groupby :: "('a \<Rightarrow> int) \<Rightarrow> 'a list \<Rightarrow> (int \<times> 'a list) list" where
  "groupby key rows =
     map (\<lambda>k. (k, filter (\<lambda>r. key r = k) rows)) (sort (remdups (map key rows)))"

section \<open>model\_default.py and pipeline.py: features per account\<close>

record def_features =
  key_account_id :: int
  avg_amount :: float64
  std_amount :: float64
  tx_count :: nat
  avg_delay_days :: float64
  tx_count_per_day :: float64

text \<open>
  The frame \<open>features\<close> of model\_default.py; pipeline.py computes its \<open>features_def\<close> by
  the same statements. The transactions are sorted by account and date, grouped by account
  and aggregated; the count per day is the count over \<open>total_days\<close>.
\<close>

definition features :: "transaction list \<Rightarrow> nat \<Rightarrow> def_features list" where
  "features df_tx total_days =
     map (\<lambda>(k, g).
           \<lparr>key_account_id = k,
            avg_amount = mean (map amount g),
            std_amount = std (map amount g),
            tx_count = length g,
            avg_delay_days = avg_delay (map transaction_date g),
            tx_count_per_day = true_divide (real (length g)) (real total_days)\<rparr>)
         (groupby account_id (sort_key (\<lambda>t. (account_id t, transaction_date t)) df_tx))"

section \<open>scikit-learn: mean imputation\<close>

text \<open>
  \<^verbatim>\<open>SimpleImputer(strategy="mean").fit_transform(X)\<close> on a matrix given by rows: an
  infinite entry or an empty matrix is rejected; a missing entry is replaced by the mean
  of the observed entries of its column; a column with no observed entry is dropped.
\<close>

fun observed :: "float64 list \<Rightarrow> real list" where
  "observed [] = []"
| "observed (Finite x # xs) = x # observed xs"
| "observed (y # xs) = observed xs"

definition infinite_entry :: "float64 \<Rightarrow> bool" where
  "infinite_entry x = (x = PosInf \<or> x = NegInf)"

fun impute :: "float64 \<times> float64 \<Rightarrow> real list" where
  "impute (Finite x, s) = [x]"
| "impute (y, Finite m) = [m]"
| "impute (y, s) = []"

definition SimpleImputer_fit_transform :: "float64 list list \<Rightarrow> error + real list list" where
  "SimpleImputer_fit_transform X =
     (if X = [] then Inl ValueError
      else if list_ex (list_ex infinite_entry) X then Inl ValueError
      else
        let statistics = map (\<lambda>j. mean (observed (map (\<lambda>row. row ! j) X))) [0..<length (hd X)]
        in Inr (map (\<lambda>row. concat (map impute (zip row statistics))) X))"

section \<open>pipeline.py: default scoring\<close>

text \<open>
  A trained classifier is an opaque capability: from a feature matrix it gives the
  probability of the positive class for every row, or raises.
\<close>

type_synonym model = "float64 list list \<Rightarrow> error + real list"

definition default_scoring :: "model \<Rightarrow> datamart \<Rightarrow> error + (def_features \<times> real) list" where
  "default_scoring def_model db =
     (let total_days = nunique (dim_time db);
          features_def = features (fact_transactions db) total_days;
          X_def = map (\<lambda>f. [avg_amount f, std_amount f, tx_count_per_day f, avg_delay_days f])
                    features_def
      in case SimpleImputer_fit_transform X_def of Inl e \<Rightarrow> Inl e
         | Inr X_def_imputed \<Rightarrow>
        (case def_model (map (map Finite) X_def_imputed) of Inl e \<Rightarrow> Inl e
         | Inr def_prob \<Rightarrow>
            if length def_prob \<noteq> length features_def then Inl ValueError
            else Inr (zip features_def def_prob)))"

section \<open>model\_churn.py and pipeline.py: features per client\<close>

text \<open>\<^verbatim>\<open>df_tx.merge(df_acct, on="account_id")\<close>: the inner join, in the order of the left rows.\<close>

definition merge :: "transaction list \<Rightarrow> account list \<Rightarrow> (transaction \<times> account) list" where
  "merge df_tx df_acct =
     concat (map (\<lambda>t. map (\<lambda>a. (t, a)) (filter (\<lambda>a. account_id_acct a = account_id t) df_acct))
                 df_tx)"

record churn_features =
  key_client_id :: int
  tenure_days :: int
  avg_balance :: float64
  total_tx_count :: nat
  days_since_last :: int

text \<open>
  The aggregation by client. The two lambdas read the wall clock,
  \<^verbatim>\<open>pd.Timestamp.today()\<close>, once for every group: \<open>today n\<close> is what the \<open>n\<close>-th reading
  of a run returns. The tenure column is computed for all groups first, the recency column
  last.
\<close>

definition churn_agg :: "(nat \<Rightarrow> int) \<Rightarrow> (transaction \<times> account) list \<Rightarrow> churn_features list" where
  "churn_agg today df =
     (let groups = groupby (\<lambda>r. client_id (fst r)) df;
          G = length groups
      in map (\<lambda>(i, k, g).
               \<lparr>key_client_id = k,
                tenure_days = (today i - Min (set (map (\<lambda>r. opened_date (snd r)) g))) div day,
                avg_balance = mean (map (\<lambda>r. amount (fst r)) g),
                total_tx_count = length g,
                days_since_last =
                  (today (G + i) - Max (set (map (\<lambda>r. transaction_date (fst r)) g))) div day\<rparr>)
             (zip [0..<G] groups))"

text \<open>model\_churn.py sorts the merged frame by client and date before it aggregates.\<close>

definition model_churn_features ::
  "(nat \<Rightarrow> int) \<Rightarrow> transaction list \<Rightarrow> account list \<Rightarrow> churn_features list" where
  "model_churn_features today df_tx df_acct =
     churn_agg today
       (sort_key (\<lambda>r. (client_id (fst r), transaction_date (fst r))) (merge df_tx df_acct))"

text \<open>pipeline.py aggregates the merged frame as it is.\<close>

definition features_churn ::
  "(nat \<Rightarrow> int) \<Rightarrow> transaction list \<Rightarrow> account list \<Rightarrow> churn_features list" where
  "features_churn today df_tx df_acct = churn_agg today (merge df_tx df_acct)"

definition churn_prediction ::
  "(nat \<Rightarrow> int) \<Rightarrow> model \<Rightarrow> datamart \<Rightarrow> error + (churn_features \<times> real) list" where
  "churn_prediction today churn_model db =
     (let feats = features_churn today (fact_transactions db) (dim_accounts db);
          dmat = map (\<lambda>f. [Finite (real_of_int (tenure_days f)), avg_balance f,
                            Finite (real (total_tx_count f)),
                            Finite (real_of_int (days_since_last f))]) feats
      in case churn_model dmat of Inl e \<Rightarrow> Inl e
         | Inr churn_prob \<Rightarrow>
            if length churn_prob \<noteq> length feats then Inl ValueError
            else Inr (zip feats churn_prob))"

text \<open>
  What one run of the pipeline aggregates from the datamart under the wall clock it runs
  with: the features per account and the features per client.
\<close>

definition aggregate ::
  "(nat \<Rightarrow> int) \<Rightarrow> datamart \<Rightarrow> def_features list \<times> churn_features list" where
  "aggregate today db =
     (features (fact_transactions db) (nunique (dim_time db)),
      features_churn today (fact_transactions db) (dim_accounts db))"

text \<open>
  What the aggregation by client takes from the wall clock: for every client, in the order
  of the groups, the whole days from the earliest opening date to the reading for the tenure
  and the whole days from the latest transaction to the reading for the recency.
\<close>

definition whole_day_readings :: "(nat \<Rightarrow> int) \<Rightarrow> (transaction \<times> account) list \<Rightarrow> (int \<times> int) list" where
  "whole_day_readings today df =
     (let groups = groupby (\<lambda>r. client_id (fst r)) df;
          G = length groups
      in map (\<lambda>(i, k, g).
               ((today i - Min (set (map (\<lambda>r. opened_date (snd r)) g))) div day,
                (today (G + i) - Max (set (map (\<lambda>r. transaction_date (fst r)) g))) div day))
             (zip [0..<G] groups))"

section \<open>anomaly.py: load\_data\<close>

text \<open>
  The transactions as a frame, with the number of transactions of the row's account joined
  to every row.
\<close>

definition load_data :: "datamart \<Rightarrow> DataFrame" where
  "load_data db =
     (let df_tx = fact_transactions db;
          freq = (\<lambda>a. length (filter (\<lambda>t. account_id t = a) df_tx))
      in \<lparr>nrows = length df_tx,
          cols = [(''transaction_id'', map (\<lambda>t. IntC (transaction_id t)) df_tx),
                  (''account_id'', map (\<lambda>t. IntC (account_id t)) df_tx),
                  (''amount'', map (\<lambda>t. Num (amount t)) df_tx),
                  (''transaction_date'', map (\<lambda>t. Date (transaction_date t)) df_tx),
                  (''transaction_type'', map (\<lambda>t. Txt (transaction_type t)) df_tx),
                  (''time_id'', map (\<lambda>t. IntC (time_id t)) df_tx),
                  (''client_id'', map (\<lambda>t. IntC (client_id t)) df_tx),
                  (''tx_per_account'', map (\<lambda>t. IntC (int (freq (account_id t)))) df_tx)]\<rparr>)"

section \<open>pipeline.py: anomaly detection and the report\<close>

text \<open>\<^verbatim>\<open>df[mask]\<close>: the rows at which the boolean mask is set.\<close>

definition mask_rows :: "cell list \<Rightarrow> DataFrame \<Rightarrow> DataFrame" where
  "mask_rows m df =
     (let idx = filter (\<lambda>i. m ! i = Flag True) [0..<nrows df]
      in \<lparr>nrows = length idx, cols = map (\<lambda>(k, v). (k, map (\<lambda>i. v ! i) idx)) (cols df)\<rparr>)"

text \<open>\<^verbatim>\<open>df.to_dict(orient="records")\<close>: one record per row.\<close>

definition to_dict_records :: "DataFrame \<Rightarrow> (string \<times> cell) list list" where
  "to_dict_records df = map (\<lambda>i. map (\<lambda>(k, v). (k, v ! i)) (cols df)) [0..<nrows df]"

text \<open>
  What a run depends on besides the datamart: the two readings of the UTC clock (as the
  ISO string of the report and as the stamp of the file name), the readings of the local
  clock, the state of the process-wide random generator, Python's \<open>str\<close> on a cell, the
  two trained models and the forest library.
\<close>

record env =
  utcnow_isoformat :: string
  utcnow_stamp :: string
  today_at :: "nat \<Rightarrow> int"
  global_rng :: nat
  str_of :: "cell \<Rightarrow> string"
  def_model_of :: model
  churn_model_of :: model
  forest_of :: forest_lib

definition empty_frame :: DataFrame where
  "empty_frame = \<lparr>nrows = 0, cols = []\<rparr>"

text \<open>
  The frame of \<open>load_data\<close> is a new object; \<open>detect_anomalies\<close> scores it in place with
  contamination 0.05, and the date column, when there is one, is turned into strings.
\<close>

definition anomaly_detection :: "env \<Rightarrow> datamart \<Rightarrow> error + DataFrame" where
  "anomaly_detection e db =
     (let h0 = (\<lambda>r. empty_frame)(0 := load_data db)
      in case detect_anomalies (forest_of e) (global_rng e) h0 0 (5 / 100) of
           (Inl err, h) \<Rightarrow> Inl err
         | (Inr r, h) \<Rightarrow>
             let df_anom = h r
             in (case map_of (cols df_anom) ''transaction_date'' of
                   None \<Rightarrow> Inr df_anom
                 | Some v \<Rightarrow> setitem df_anom ''transaction_date'' (map (\<lambda>c. Txt (str_of e c)) v)))"

datatype json = JString string | JRecords "(string \<times> cell) list list"

text \<open>
  The run: the three stages in order, each ending the run when it raises, then the report
  and the one file it is written to. The result is the list of the files written, each with
  its path and content. The logging of metrics between scoring and report does not touch
  the report and is left out; the datamart is the one the ETL step has built.
\<close>

definition pipeline :: "env \<Rightarrow> datamart \<Rightarrow> error + (string \<times> (string \<times> json) list) list" where
  "pipeline e db =
     (case default_scoring (def_model_of e) db of Inl err \<Rightarrow> Inl err
      | Inr features_def \<Rightarrow>
     (case churn_prediction (today_at e) (churn_model_of e) db of Inl err \<Rightarrow> Inl err
      | Inr feats_churn \<Rightarrow>
     (case anomaly_detection e db of Inl err \<Rightarrow> Inl err
      | Inr df_anom \<Rightarrow>
     (case getitem df_anom ''is_anomaly'' of Inl err \<Rightarrow> Inl err
      | Inr is_anomaly \<Rightarrow>
        let report =
              [(''timestamp'', JString (utcnow_isoformat e)),
               (''default_risk_summary'',
                  JRecords (map (\<lambda>(f, p). [(''account_id'', IntC (key_account_id f)),
                                           (''default_risk'', Num p)]) features_def)),
               (''churn_risk_summary'',
                  JRecords (map (\<lambda>(f, p). [(''client_id'', IntC (key_client_id f)),
                                           (''churn_risk'', Num p)]) feats_churn)),
               (''anomalies'', JRecords (to_dict_records (mask_rows is_anomaly df_anom)))]
        in Inr [(''report_'' @ utcnow_stamp e @ ''.json'', report)]))))"

section \<open>app.py: score\_default\<close>

text \<open>
  The feature row the endpoint builds for one account; an account without transactions is
  answered with status 404.
\<close>

definition score_default_X :: "datamart \<Rightarrow> int \<Rightarrow> error + float64 list list" where
  "score_default_X db req_account_id =
     (let df = sort_key transaction_date
                 (filter (\<lambda>t. account_id t = req_account_id) (fact_transactions db))
      in if df = [] then Inl (HTTPException 404)
         else
           let total_days = nunique (dim_time db);
               avg_amount = mean (map amount df);
               std_amount = std (map amount df);
               tx_count = length df;
               avg_delay = avg_delay (map transaction_date df)
           in Inr [[avg_amount, std_amount,
                    true_divide (real tx_count) (real total_days), avg_delay]])"

text \<open>The row goes to the classifier as it is; the answer carries the first probability.\<close>

definition score_default :: "model \<Rightarrow> datamart \<Rightarrow> int \<Rightarrow> error + int \<times> real" where
  "score_default logreg_model db req_account_id =
     (case score_default_X db req_account_id of Inl e \<Rightarrow> Inl e
      | Inr X \<Rightarrow>
     (case logreg_model X of Inl e \<Rightarrow> Inl e
      | Inr proba \<Rightarrow>
     (case proba of [] \<Rightarrow> Inl IndexError
      | p # ps \<Rightarrow> Inr (req_account_id, p))))"

section \<open>Auxiliary notions for the proofs\<close>


text \<open>
  What \<open>detect_anomalies\<close> writes as scores: the negated decision function of the forest
  seeded with 42. Without the offset these are the negated raw scores.
\<close>

definition anomaly_scores :: "forest_lib \<Rightarrow> real \<Rightarrow> real list list \<Rightarrow> real list" where
  "anomaly_scores lib c X =
     map (\<lambda>x. - (score_samples lib 42 X x - offset_of lib 42 c X)) X"


section \<open>Concrete inputs\<close>

text \<open>
  The transactions of the scenario in the specification: two of account 1 and one large
  transaction of account 2. The example forest scores a sample by its amount alone.
\<close>

definition example_lib :: forest_lib where
  "example_lib = \<lparr>score_samples = (\<lambda>r X x. - hd x), offset_of = (\<lambda>r c X. 0)\<rparr>"

definition example_frame :: DataFrame where
  "example_frame =
     \<lparr>nrows = 3,
      cols = [(''amount'', [Num 50, Num 55, Num 5000]),
              (''tx_per_account'', [IntC 2, IntC 2, IntC 1])]\<rparr>"

definition example_heap :: heap where
  "example_heap = (\<lambda>r. example_frame)"

text \<open>A frame that already carries a score column, as a frame scored before does.\<close>

definition rescored_frame :: DataFrame where
  "rescored_frame =
     \<lparr>nrows = 3,
      cols = [(''amount'', [Num 50, Num 55, Num 5000]),
              (''tx_per_account'', [IntC 2, IntC 2, IntC 1]),
              (''anomaly_score'', [Num 0, Num 0, Num 0])]\<rparr>"

definition rescored_heap :: heap where
  "rescored_heap = (\<lambda>r. rescored_frame)"

text \<open>
  A datamart with three transactions: one of account 1 and two of account 2, on three
  distinct days.
\<close>

definition tx :: "int \<Rightarrow> int \<Rightarrow> real \<Rightarrow> int \<Rightarrow> int \<Rightarrow> transaction" where
  "tx i a x d c =
     \<lparr>transaction_id = i, account_id = a, amount = x, transaction_date = d,
      transaction_type = ''debit'', time_id = 1, client_id = c\<rparr>"

definition example_db :: datamart where
  "example_db =
     \<lparr>fact_transactions = [tx 1 1 50 0 1, tx 2 2 10 (3 * day) 2, tx 3 2 12 (5 * day) 2],
      dim_accounts =
        [\<lparr>account_id_acct = 1, client_id_acct = 1, account_type = ''checking'',
          opened_date = - (10 * day)\<rparr>,
         \<lparr>account_id_acct = 2, client_id_acct = 2, account_type = ''savings'',
          opened_date = - (20 * day)\<rparr>],
      dim_time = [0, 3, 5]\<rparr>"

text \<open>A classifier that rejects a matrix with a missing value and answers 0.5 otherwise.\<close>

definition nan_rejecting :: model where
  "nan_rejecting X =
     (if list_ex (list_ex (\<lambda>x. x = NaN)) X then Inl ValueError else Inr (map (\<lambda>row. 1 / 2) X))"

text \<open>The wall clock of a run on day 30, of a run on day 31, and of a run six seconds into day 30.\<close>

definition first_run_clock :: "nat \<Rightarrow> int" where
  "first_run_clock n = 30 * day"

definition second_run_clock :: "nat \<Rightarrow> int" where
  "second_run_clock n = 31 * day"

definition later_clock :: "nat \<Rightarrow> int" where
  "later_clock n = 30 * day + 6000000"

text \<open>An environment of a run: fixed clocks, a fixed rendering of cells, the example models.\<close>

definition example_env :: env where
  "example_env =
     \<lparr>utcnow_isoformat = ''2024-01-01T00:00:00'', utcnow_stamp = ''20240101_000000'',
      today_at = first_run_clock, global_rng = 7, str_of = (\<lambda>c. ''2023-12-01''),
      def_model_of = nan_rejecting, churn_model_of = nan_rejecting, forest_of = example_lib\<rparr>"

text \<open>
  Four transactions with a tie at the threshold: the float64 number nearest to one third as
  contamination, for which the float virtual index is exactly 2.
\<close>

definition double_third :: real where
  "double_third = 6004799503160661 / 18014398509481984"

definition tie_frame :: DataFrame where
  "tie_frame =
     \<lparr>nrows = 4,
      cols = [(''amount'', [Num 10, Num 21, Num 34, Num 42]),
              (''tx_per_account'', [IntC 1, IntC 1, IntC 1, IntC 1])]\<rparr>"

definition tie_heap :: heap where
  "tie_heap = (\<lambda>r. tie_frame)"

section \<open>Properties of the quantile and of data frames\<close>








lemma sequence_map_length: "sequence (map f xs) = Inr ys \<Longrightarrow> length ys = length xs"
  by (induction xs arbitrary: ys) (auto split: sum.splits)

lemma getitem_length: "wf_frame df \<Longrightarrow> getitem df k = Inr v \<Longrightarrow> length v = nrows df"
  by (auto simp: wf_frame_def getitem_def list_all_iff split: option.splits dest!: map_of_SomeD)

lemma feature_matrix_length:
  assumes "wf_frame df" "feature_matrix df = Inr X"
  shows "length X = nrows df"
proof -
  from assms(2) obtain a f xs ys where
    a: "getitem df ''amount'' = Inr a" and f: "getitem df ''tx_per_account'' = Inr f"
    and xs: "sequence (map to_float a) = Inr xs" and ys: "sequence (map to_float f) = Inr ys"
    and X: "X = map (\<lambda>(x, y). [x, y]) (zip xs ys)"
    by (auto simp: feature_matrix_def split: sum.splits)
  have "length xs = nrows df" "length ys = nrows df"
    using sequence_map_length[OF xs] sequence_map_length[OF ys]
      getitem_length[OF assms(1) a] getitem_length[OF assms(1) f] by simp_all
  then show ?thesis by (simp add: X)
qed

lemma map_of_assign_col: "map_of (assign_col cs k v) = (map_of cs)(k \<mapsto> v)"
  by (induction cs) (auto simp: fun_eq_iff)

lemma getitem_setitem:
  "setitem df k v = Inr df' \<Longrightarrow> getitem df' k' = (if k' = k then Inr v else getitem df k')"
  by (auto simp: setitem_def getitem_def map_of_assign_col split: if_splits)

lemma nrows_setitem: "setitem df k v = Inr df' \<Longrightarrow> nrows df' = nrows df"
  by (auto simp: setitem_def split: if_splits)

lemma sequence_ge_threshold:
  "sequence (map (ge_threshold t) (map Num xs)) = Inr (map (\<lambda>x. Flag (t \<le> x)) xs)"
  by (induction xs) auto

lemma detect_anomalies_result:
  assumes wf: "wf_frame (h df)" and X: "feature_matrix (h df) = Inr X" and ne: "X \<noteq> []"
    and c: "0 < c" "c \<le> 1 / 2"
  shows "\<exists>t. np_quantile (anomaly_scores lib c X) (1 - c) = Inr t \<and>
           detect_anomalies lib g h df c =
             (Inr df, h(df := (h df)\<lparr>cols :=
                assign_col (assign_col (cols (h df)) ''anomaly_score'' (map Num (anomaly_scores lib c X)))
                  ''is_anomaly'' (map (\<lambda>s. Flag (t \<le> s)) (anomaly_scores lib c X))\<rparr>))"
proof -
  let ?S = "anomaly_scores lib c X"
  have len: "length ?S = nrows (h df)"
    using feature_matrix_length[OF wf X] by (simp add: anomaly_scores_def)
  have Sne: "?S \<noteq> []" using ne by (simp add: anomaly_scores_def)
  obtain t where t: "np_quantile ?S (1 - c) = Inr t"
    using c Sne by (simp add: np_quantile_def Let_def)
  have fit: "fit lib g \<lparr>contamination = c, random_state = Some 42\<rparr> X
      = Inr \<lparr>rng = 42, train = X, offset = offset_of lib 42 c X\<rparr>"
    using c ne by (simp add: fit_def check_random_state_def)
  have dec: "map uminus (decision_function lib \<lparr>rng = 42, train = X, offset = offset_of lib 42 c X\<rparr> X) = ?S"
    by (simp add: decision_function_def anomaly_scores_def)
  show ?thesis
    apply (rule exI[of _ t])
    apply (simp add: t)
    apply (simp add: detect_anomalies_def X fit dec Let_def setitem_def len t getitem_def
        map_of_assign_col sequence_ge_threshold[unfolded map_map])
    done
qed









lemma example_heap_matrix:
  "feature_matrix (example_heap r) = Inr [[50, 2], [55, 2], [5000, 1]]"
  by (simp add: example_heap_def example_frame_def feature_matrix_def getitem_def)

lemma rescored_heap_wf: "wf_frame (rescored_heap r)"
  by (simp add: rescored_heap_def rescored_frame_def wf_frame_def)

lemma rescored_heap_matrix:
  "feature_matrix (rescored_heap r) = Inr [[50, 2], [55, 2], [5000, 1]]"
  by (simp add: rescored_heap_def rescored_frame_def feature_matrix_def getitem_def)

section \<open>The anomaly scorer\<close>

subsection \<open>Float64 arithmetic\<close>

lemma lerp_exact: "lerp (\<lambda>x. x) a b t = a + (b - a) * t"
  by (simp add: lerp_def Let_def algebra_simps)

lemma np_quantile_fl_exact: "np_quantile_fl (\<lambda>x. x) a q = np_quantile a q"
proof (cases "0 \<le> q \<and> q \<le> 1 \<and> a \<noteq> []")
  case False
  then show ?thesis by (auto simp: np_quantile_fl_def np_quantile_def)
next
  case True
  define N where "N = length a - 1"
  define v where "v = real N * q"
  have len: "length a = Suc N" using True by (cases a) (auto simp: N_def)
  have v0: "0 \<le> v" using True by (simp add: v_def)
  have v1: "v \<le> real N" using True by (simp add: v_def mult_left_le)
  have f0: "0 \<le> \<lfloor>v\<rfloor>" using v0 by simp
  have it_prev: "item (sort a) \<lfloor>v\<rfloor> = sort a ! nat \<lfloor>v\<rfloor>"
    using f0 by (auto simp: item_def)
  have nneg: "\<not> \<lfloor>v\<rfloor> + 1 < 0" using f0 by linarith
  have "nat (\<lfloor>v\<rfloor> + 1) = nat \<lfloor>v\<rfloor> + 1" using f0 by linarith
  then have it_next: "item (sort a) (\<lfloor>v\<rfloor> + 1) = sort a ! (nat \<lfloor>v\<rfloor> + 1)"
    unfolding item_def if_not_P[OF nneg] by (rule arg_cong)
  have it_last: "item (sort a) (- 1) = sort a ! N"
    by (simp add: item_def len)
  have fl: "np_quantile_fl (\<lambda>x. x) a q =
      Inr (if real N \<le> v then sort a ! N
           else sort a ! nat \<lfloor>v\<rfloor> + (sort a ! (nat \<lfloor>v\<rfloor> + 1) - sort a ! nat \<lfloor>v\<rfloor>) * (v - of_int \<lfloor>v\<rfloor>))"
    using True v0
    by (simp add: np_quantile_fl_def Let_def lerp_exact it_prev it_next it_last len v_def[symmetric]
        not_less)
  have re: "np_quantile a q =
      Inr (sort a ! nat \<lfloor>v\<rfloor> + (sort a ! min (nat \<lfloor>v\<rfloor> + 1) N - sort a ! nat \<lfloor>v\<rfloor>) * (v - real (nat \<lfloor>v\<rfloor>)))"
    using True by (simp add: np_quantile_def Let_def len v_def mult.commute)
  show ?thesis
  proof (cases "real N \<le> v")
    case top: True
    then have "v = real N" using v1 by simp
    then have "nat \<lfloor>v\<rfloor> = N" by simp
    then show ?thesis using top by (simp add: fl re)
  next
    case False
    then have "\<lfloor>v\<rfloor> < int N" by (simp add: floor_less_iff)
    then have "min (nat \<lfloor>v\<rfloor> + 1) N = nat \<lfloor>v\<rfloor> + 1" using f0 by linarith
    then show ?thesis using False f0 by (simp add: fl re)
  qed
qed

text \<open>With exact arithmetic for the rounding, the float scorer is \<open>detect_anomalies\<close>.\<close>

lemma detect_anomalies_fl_exact:
  "detect_anomalies_fl (\<lambda>x. x) lib g h df c = detect_anomalies lib g h df c"
proof -
  have d: "decision_function_fl (\<lambda>x. x) lib m X = decision_function lib m X" for m X
    by (simp add: decision_function_fl_def decision_function_def)
  show ?thesis
    unfolding detect_anomalies_fl_def detect_anomalies_def d np_quantile_fl_exact by (rule refl)
qed

lemma np_quantile_fl_value:
  assumes "a \<noteq> []" "0 \<le> q" "q \<le> 1"
  shows "np_quantile_fl rnd a q = Inr
    (let arr = sort a;
         n = length a;
         v = rnd (real (n - 1) * q);
         lo = (if real (n - 1) \<le> v then n - 1 else if v < 0 then 0 else nat \<lfloor>v\<rfloor>);
         hi = (if real (n - 1) \<le> v then n - 1 else if v < 0 then 0 else nat \<lfloor>v\<rfloor> + 1);
         w = rnd (v - (if real (n - 1) \<le> v then - 1 else if v < 0 then 0 else of_int \<lfloor>v\<rfloor>));
         d = rnd (arr ! hi - arr ! lo)
     in if 1 / 2 \<le> w then rnd (arr ! hi - rnd (d * rnd (1 - w))) else rnd (arr ! lo + rnd (d * w)))"
proof -
  define N where "N = length a - 1"
  define v where "v = rnd (real N * q)"
  have len: "length a = Suc N" using assms(1) by (cases a) (auto simp: N_def)
  have it_last: "item (sort a) (- 1) = sort a ! N" by (simp add: item_def len)
  have it_zero: "item (sort a) 0 = sort a ! 0" by (simp add: item_def)
  have it_prev: "item (sort a) \<lfloor>v\<rfloor> = sort a ! nat \<lfloor>v\<rfloor>" if "\<not> v < 0"
  proof -
    have "\<not> \<lfloor>v\<rfloor> < 0" using that by linarith
    then show ?thesis unfolding item_def by (simp only: if_False)
  qed
  have it_next: "item (sort a) (\<lfloor>v\<rfloor> + 1) = sort a ! (nat \<lfloor>v\<rfloor> + 1)" if "\<not> v < 0"
  proof -
    have f0: "0 \<le> \<lfloor>v\<rfloor>" using that by linarith
    have nneg: "\<not> \<lfloor>v\<rfloor> + 1 < 0" using f0 by linarith
    have "nat (\<lfloor>v\<rfloor> + 1) = nat \<lfloor>v\<rfloor> + 1" using f0 by linarith
    then show ?thesis unfolding item_def if_not_P[OF nneg] by (rule arg_cong)
  qed
  consider (top) "real N \<le> v" | (neg) "\<not> real N \<le> v" "v < 0" | (mid) "\<not> real N \<le> v" "\<not> v < 0"
    by blast
  then show ?thesis
  proof cases
    case top
    then show ?thesis
      using assms by (simp add: np_quantile_fl_def Let_def lerp_def len v_def[symmetric] it_last)
  next
    case neg
    then show ?thesis
      using assms by (simp add: np_quantile_fl_def Let_def lerp_def len v_def[symmetric] it_zero)
  next
    case mid
    then show ?thesis
      using assms it_prev[OF mid(2)] it_next[OF mid(2)]
      by (simp add: np_quantile_fl_def Let_def lerp_def len v_def[symmetric])
  qed
qed

lemma detect_anomalies_fl_result:
  assumes wf: "wf_frame (h df)" and X: "feature_matrix (h df) = Inr X" and ne: "X \<noteq> []"
    and c: "0 < c" "c \<le> 1 / 2" and q: "0 \<le> rnd (1 - c)" "rnd (1 - c) \<le> 1"
    and S: "S = map uminus (decision_function_fl rnd lib \<lparr>rng = 42, train = X, offset = offset_of lib 42 c X\<rparr> X)"
  shows "\<exists>t. np_quantile_fl rnd S (rnd (1 - c)) = Inr t \<and>
           detect_anomalies_fl rnd lib g h df c =
             (Inr df, h(df := (h df)\<lparr>cols :=
                assign_col (assign_col (cols (h df)) ''anomaly_score'' (map Num S))
                  ''is_anomaly'' (map (\<lambda>s. Flag (t \<le> s)) S)\<rparr>))"
proof -
  have len: "length S = nrows (h df)"
    using feature_matrix_length[OF wf X] by (simp add: S decision_function_fl_def)
  have Sne: "S \<noteq> []" using ne by (simp add: S decision_function_fl_def)
  obtain t where t: "np_quantile_fl rnd S (rnd (1 - c)) = Inr t"
    using np_quantile_fl_value[OF Sne q] by blast
  have fit: "fit lib g \<lparr>contamination = c, random_state = Some 42\<rparr> X
      = Inr \<lparr>rng = 42, train = X, offset = offset_of lib 42 c X\<rparr>"
    using c ne by (simp add: fit_def check_random_state_def)
  show ?thesis
    apply (rule exI[of _ t])
    apply (simp add: t)
    apply (simp add: detect_anomalies_fl_def X fit S[symmetric] Let_def setitem_def len t getitem_def
        map_of_assign_col sequence_ge_threshold[unfolded map_map])
    done
qed

lemma round_half_even_of_int: "round_half_even (of_int k) = k"
  by (simp add: round_half_even_def)

lemma binary64_in_binade:
  assumes "2 powr of_int e \<le> \<bar>x\<bar>" "\<bar>x\<bar> < 2 powr (of_int e + 1)"
  shows "binary64 x = of_int (round_half_even (x / 2 powr (of_int e - 52))) * 2 powr (of_int e - 52)"
proof -
  have pos: "0 < \<bar>x\<bar>" using assms(1) by (smt (verit) powr_gt_zero)
  have "\<lfloor>log 2 \<bar>x\<bar>\<rfloor> = e"
    using pos assms by (simp add: floor_log_eq_powr_iff)
  moreover have "x \<noteq> 0" using pos by simp
  ultimately show ?thesis by (simp add: binary64_def Let_def)
qed

lemma binary64_zero: "binary64 0 = 0"
  by (simp add: binary64_def)

lemma binary64_small:
  "binary64 (- 10) = - 10" "binary64 (- 21) = - 21" "binary64 (- 34) = - 34" "binary64 (- 42) = - 42"
  "binary64 8 = 8" "binary64 34 = 34"
  using binary64_in_binade[of 3 "- 10"] binary64_in_binade[of 4 "- 21"] binary64_in_binade[of 5 "- 34"]
    binary64_in_binade[of 5 "- 42"] binary64_in_binade[of 3 8] binary64_in_binade[of 5 34]
  by (simp_all add: powr_minus powr_numeral round_half_even_def field_simps)

lemma binary64_one_minus_third:
  "binary64 (1 - double_third) = 6004799503160662 / 9007199254740992"
  using binary64_in_binade[of "- 1" "1 - double_third"]
  by (simp add: double_third_def powr_minus powr_numeral round_half_even_def field_simps)

lemma binary64_index:
  "binary64 (9007199254740993 / 4503599627370496) = 2"
  using binary64_in_binade[of 1 "9007199254740993 / 4503599627370496"]
  by (simp add: powr_minus powr_numeral round_half_even_def field_simps)

lemma tie_heap_wf: "wf_frame (tie_heap r)"
  by (simp add: tie_heap_def tie_frame_def wf_frame_def)

lemma tie_heap_matrix:
  "feature_matrix (tie_heap r) = Inr [[10, 1], [21, 1], [34, 1], [42, 1]]"
  by (simp add: tie_heap_def tie_frame_def feature_matrix_def getitem_def)

lemma double_third_range: "0 < double_third" "double_third \<le> 1 / 2"
  by (simp_all add: double_third_def)

lemma tie_threshold_exact:
  "np_quantile [10, 21, 34, 42] (1 - double_third) = Inr (34 + 8 / 18014398509481984)"
  by (simp add: np_quantile_def double_third_def Let_def)

text \<open>
  In exact arithmetic the virtual index of the tie example is above 2 by \<open>1 / 2 ^ 54\<close>, the threshold
  lies above the third score, and that row is not flagged; in float64 the index is 2, the
  threshold is the third score, and the row is flagged (see the witness below).
\<close>

lemma exact_arithmetic_misses_the_tie:
  "getitem (snd (detect_anomalies example_lib 7 tie_heap 0 double_third) 0) ''is_anomaly''
     = Inr [Flag False, Flag False, Flag False, Flag True]"
proof -
  have S: "anomaly_scores example_lib double_third [[10, 1], [21, 1], [34, 1], [42, 1]] = [10, 21, 34, 42]"
    by (simp add: anomaly_scores_def example_lib_def)
  have ne: "[[10, 1], [21, 1], [34, 1], [42, 1 :: real]] \<noteq> []" by simp
  from detect_anomalies_result[where h=tie_heap and df=0 and lib=example_lib and g=7,
      OF tie_heap_wf tie_heap_matrix ne double_third_range, unfolded S]
  obtain t where t: "np_quantile [10, 21, 34, 42] (1 - double_third) = Inr t"
    and res: "detect_anomalies example_lib 7 tie_heap 0 double_third =
             (Inr 0, tie_heap(0 := (tie_heap 0)\<lparr>cols :=
                assign_col (assign_col (cols (tie_heap 0)) ''anomaly_score''
                    (map Num [10, 21, 34, 42]))
                  ''is_anomaly'' (map (\<lambda>s. Flag (t \<le> s)) [10, 21, 34, 42])\<rparr>))"
    by (elim exE conjE)
  have teq: "t = 34 + 8 / 18014398509481984" using t by (simp add: tie_threshold_exact)
  show ?thesis unfolding res by (simp add: getitem_def map_of_assign_col teq)
qed

subsection \<open>The claims\<close>

text \<open>
  Claim C1, as the code has it. For a non-empty transaction frame and a contamination \<open>c\<close>
  in (0, 0.5], whatever the rounding of the arithmetic is (provided the rounded \<open>1 - c\<close> is
  still in [0, 1], as it is in float64), the scorer returns its argument; the column
  \<open>anomaly_score\<close> holds the negated decision function of the fitted forest (higher is more
  anomalous); the threshold is the \<open>(1 - c)\<close>-quantile of these scores, written out here as
  numpy computes it: the sorted scores interpolated at the virtual index
  \<open>(n - 1) * (1 - c)\<close>; and \<open>is_anomaly\<close> is set exactly at the points whose score is
  greater than or equal to the threshold, ties included.
\<close>

theorem detect_anomalies_fl_scores_threshold_flags:
  assumes wf: "wf_frame (h df)" and X: "feature_matrix (h df) = Inr X" and ne: "X \<noteq> []"
    and c: "0 < c" "c \<le> 1 / 2" and q: "0 \<le> rnd (1 - c)" "rnd (1 - c) \<le> 1"
  shows "\<exists>fitted h'.
     fit lib g \<lparr>contamination = c, random_state = Some 42\<rparr> X = Inr fitted \<and>
     detect_anomalies_fl rnd lib g h df c = (Inr df, h') \<and>
     (let scores = map uminus (decision_function_fl rnd lib fitted X);
          arr = sort scores;
          n = length scores;
          v = rnd (real (n - 1) * rnd (1 - c));
          lo = (if real (n - 1) \<le> v then n - 1 else if v < 0 then 0 else nat \<lfloor>v\<rfloor>);
          hi = (if real (n - 1) \<le> v then n - 1 else if v < 0 then 0 else nat \<lfloor>v\<rfloor> + 1);
          w = rnd (v - (if real (n - 1) \<le> v then - 1 else if v < 0 then 0 else of_int \<lfloor>v\<rfloor>));
          d = rnd (arr ! hi - arr ! lo);
          t = (if 1 / 2 \<le> w then rnd (arr ! hi - rnd (d * rnd (1 - w)))
               else rnd (arr ! lo + rnd (d * w)))
      in getitem (h' df) ''anomaly_score'' = Inr (map Num scores) \<and>
         getitem (h' df) ''is_anomaly'' = Inr (map (\<lambda>s. Flag (t \<le> s)) scores))"
proof -
  let ?m = "\<lparr>rng = 42, train = X, offset = offset_of lib 42 c X\<rparr>"
  define S where "S = map uminus (decision_function_fl rnd lib ?m X)"
  have fit: "fit lib g \<lparr>contamination = c, random_state = Some 42\<rparr> X = Inr ?m"
    using c ne by (simp add: fit_def check_random_state_def)
  have Sne: "S \<noteq> []" using ne by (simp add: S_def decision_function_fl_def)
  from detect_anomalies_fl_result[where h=h and df=df, OF wf X ne c q S_def, of g]
  obtain t where t: "np_quantile_fl rnd S (rnd (1 - c)) = Inr t"
    and res: "detect_anomalies_fl rnd lib g h df c =
             (Inr df, h(df := (h df)\<lparr>cols :=
                assign_col (assign_col (cols (h df)) ''anomaly_score'' (map Num S))
                  ''is_anomaly'' (map (\<lambda>s. Flag (t \<le> s)) S)\<rparr>))"
    by (elim exE conjE)
  note teq = np_quantile_fl_value[OF Sne q, of rnd, unfolded Let_def, symmetric, unfolded t,
      THEN Inr_inject]
  show ?thesis
    apply (rule exI[of _ ?m], rule exI)
    apply (intro conjI)
      apply (rule fit)
     apply (rule res)
    apply (fold S_def)
    apply (simp only: Let_def teq)
    apply (simp add: getitem_def map_of_assign_col)
    done
qed

theorem detect_anomalies_fl_scores_threshold_flags_witness:
  "wf_frame (tie_heap 0) \<and>
   feature_matrix (tie_heap 0) = Inr [[10, 1], [21, 1], [34, 1], [42, 1]] \<and>
   0 < double_third \<and> double_third \<le> 1 / 2 \<and>
   0 \<le> binary64 (1 - double_third) \<and> binary64 (1 - double_third) \<le> 1 \<and>
   (\<exists>h'. detect_anomalies_fl binary64 example_lib 7 tie_heap 0 double_third = (Inr 0, h') \<and>
      getitem (h' 0) ''anomaly_score'' = Inr [Num 10, Num 21, Num 34, Num 42] \<and>
      getitem (h' 0) ''is_anomaly'' = Inr [Flag False, Flag False, Flag True, Flag True])"
proof -
  have q: "0 \<le> binary64 (1 - double_third)" "binary64 (1 - double_third) \<le> 1"
    by (simp_all add: binary64_one_minus_third)
  have ne: "[[10, 1], [21, 1], [34, 1], [42, 1 :: real]] \<noteq> []" by simp
  have sc: "map uminus (decision_function_fl binary64 example_lib m [[10, 1], [21, 1], [34, 1], [42, 1]])
      = [10, 21, 34, 42]" if "offset m = 0" for m
    using that by (simp add: decision_function_fl_def example_lib_def binary64_small)
  from detect_anomalies_fl_scores_threshold_flags [where h=tie_heap and df=0 and rnd=binary64 and lib=example_lib and g=7,
      OF tie_heap_wf tie_heap_matrix ne double_third_range q]
  obtain fitted h' where
    fit: "fit example_lib 7 \<lparr>contamination = double_third, random_state = Some 42\<rparr>
            [[10, 1], [21, 1], [34, 1], [42, 1]] = Inr fitted"
    and res: "detect_anomalies_fl binary64 example_lib 7 tie_heap 0 double_third = (Inr 0, h')"
    and cols: "(let scores = map uminus (decision_function_fl binary64 example_lib fitted
                      [[10, 1], [21, 1], [34, 1], [42, 1]]);
          arr = sort scores;
          n = length scores;
          v = binary64 (real (n - 1) * binary64 (1 - double_third));
          lo = (if real (n - 1) \<le> v then n - 1 else if v < 0 then 0 else nat \<lfloor>v\<rfloor>);
          hi = (if real (n - 1) \<le> v then n - 1 else if v < 0 then 0 else nat \<lfloor>v\<rfloor> + 1);
          w = binary64 (v - (if real (n - 1) \<le> v then - 1 else if v < 0 then 0 else of_int \<lfloor>v\<rfloor>));
          d = binary64 (arr ! hi - arr ! lo);
          t = (if 1 / 2 \<le> w then binary64 (arr ! hi - binary64 (d * binary64 (1 - w)))
               else binary64 (arr ! lo + binary64 (d * w)))
      in getitem (h' 0) ''anomaly_score'' = Inr (map Num scores) \<and>
         getitem (h' 0) ''is_anomaly'' = Inr (map (\<lambda>s. Flag (t \<le> s)) scores))"
    by (elim exE conjE)
  have off: "offset fitted = 0"
    using fit by (auto simp: fit_def example_lib_def split: if_splits)
  have "getitem (h' 0) ''anomaly_score'' = Inr [Num 10, Num 21, Num 34, Num 42] \<and>
      getitem (h' 0) ''is_anomaly'' = Inr [Flag False, Flag False, Flag True, Flag True]"
    using cols
    by (simp add: sc[OF off] Let_def binary64_one_minus_third binary64_index binary64_small
        binary64_zero)
  then show ?thesis
    using res q double_third_range tie_heap_wf[of 0] tie_heap_matrix[of 0] by simp
qed

text \<open>
  The claim C1 as stated, for every contamination value, fails outside (0, 0.5]: at
  contamination 1 the scorer raises, and the frame gets no score column.
\<close>

theorem contamination_one_scores_nothing:
  "fst (detect_anomalies_fl binary64 example_lib 7 example_heap 0 1) = Inl InvalidParameterError \<and>
   getitem (snd (detect_anomalies_fl binary64 example_lib 7 example_heap 0 1) 0) ''anomaly_score''
     = Inl (KeyError ''anomaly_score'')"
proof -
  have r: "detect_anomalies_fl binary64 example_lib 7 example_heap 0 1
      = (Inl InvalidParameterError, example_heap)"
    by (simp add: detect_anomalies_fl_def example_heap_matrix fit_def)
  have "getitem (example_heap 0) ''anomaly_score'' = Inl (KeyError ''anomaly_score'')"
    by (simp add: example_heap_def example_frame_def getitem_def)
  then show ?thesis by (simp add: r)
qed



text \<open>
  Claim C3. For a transaction frame with its two feature columns and a contamination
  outside (0, 0.5], the scorer raises InvalidParameterError: it returns no frame and leaves
  its argument as it was.
\<close>

theorem contamination_out_of_range_raises:
  assumes "feature_matrix (h df) = Inr X" "\<not> (0 < c \<and> c \<le> 1 / 2)"
  shows "detect_anomalies lib g h df c = (Inl InvalidParameterError, h)"
  using assms by (simp add: detect_anomalies_def fit_def)

theorem contamination_out_of_range_raises_witness:
  "feature_matrix (example_heap 0) = Inr [[50, 2], [55, 2], [5000, 1]] \<and>
   \<not> ((0::real) < 0 \<and> (0::real) \<le> 1 / 2) \<and>
   detect_anomalies example_lib 7 example_heap 0 0 = (Inl InvalidParameterError, example_heap)"
  using contamination_out_of_range_raises
    [of example_heap 0 "[[50, 2], [55, 2], [5000, 1]]" 0 example_lib 7]
  by (simp add: example_heap_matrix)

text \<open>
  Claim C6. The scorer seeds the forest with the constant 42, so its whole result, the score
  vector included, is the same whatever the state \<open>g\<close> of the process-wide random generator
  is when it runs: two runs on the same frame and contamination give identical scores.
\<close>

theorem detect_anomalies_deterministic:
  "detect_anomalies lib g1 h df c = detect_anomalies lib g2 h df c"
proof -
  have "fit lib g1 \<lparr>contamination = c, random_state = Some 42\<rparr> X
      = fit lib g2 \<lparr>contamination = c, random_state = Some 42\<rparr> X" for X
    by (simp add: fit_def check_random_state_def)
  then show ?thesis
    by (cases "feature_matrix (h df)") (simp_all add: detect_anomalies_def)
qed

text \<open>
  Claim C9, as the code has it. \<open>detect_anomalies\<close> works in place: it returns the reference
  it was given, the object it refers to then carries the columns \<open>anomaly_score\<close> and
  \<open>is_anomaly\<close>, its index and every column of another name are unchanged, and so is every
  other object (a copy the caller made before the call in particular). A column named
  \<open>anomaly_score\<close> or \<open>is_anomaly\<close> that the frame already had is overwritten.
\<close>

theorem detect_anomalies_in_place:
  assumes wf: "wf_frame (h df)" and X: "feature_matrix (h df) = Inr X" and ne: "X \<noteq> []"
    and c: "0 < c" "c \<le> 1 / 2"
  shows "\<exists>h' s f.
           detect_anomalies lib g h df c = (Inr df, h') \<and>
           (\<forall>r. r \<noteq> df \<longrightarrow> h' r = h r) \<and>
           nrows (h' df) = nrows (h df) \<and>
           (\<forall>k. k \<noteq> ''anomaly_score'' \<and> k \<noteq> ''is_anomaly''
                 \<longrightarrow> getitem (h' df) k = getitem (h df) k) \<and>
           getitem (h' df) ''anomaly_score'' = Inr s \<and>
           getitem (h' df) ''is_anomaly'' = Inr f"
proof -
  obtain t where
    res: "detect_anomalies lib g h df c =
             (Inr df, h(df := (h df)\<lparr>cols :=
                assign_col (assign_col (cols (h df)) ''anomaly_score'' (map Num (anomaly_scores lib c X)))
                  ''is_anomaly'' (map (\<lambda>s. Flag (t \<le> s)) (anomaly_scores lib c X))\<rparr>))"
    using detect_anomalies_result[where h=h and df=df, OF wf X ne c] by blast
  show ?thesis
    apply (rule exI, rule exI, rule exI)
    apply (intro conjI)
         apply (rule res)
        apply simp
       apply simp
      apply (simp add: getitem_def map_of_assign_col)
     apply (simp add: getitem_def map_of_assign_col)
    apply (simp add: getitem_def map_of_assign_col)
    done
qed

theorem detect_anomalies_in_place_witness:
  "wf_frame (rescored_heap 0) \<and>
   feature_matrix (rescored_heap 0) = Inr [[50, 2], [55, 2], [5000, 1]] \<and>
   (\<exists>h' s f.
      detect_anomalies example_lib 7 rescored_heap 0 (1 / 2) = (Inr 0, h') \<and>
      (\<forall>r. r \<noteq> 0 \<longrightarrow> h' r = rescored_heap r) \<and>
      nrows (h' 0) = nrows (rescored_heap 0) \<and>
      (\<forall>k. k \<noteq> ''anomaly_score'' \<and> k \<noteq> ''is_anomaly''
            \<longrightarrow> getitem (h' 0) k = getitem (rescored_heap 0) k) \<and>
      getitem (h' 0) ''anomaly_score'' = Inr s \<and>
      getitem (h' 0) ''is_anomaly'' = Inr f)"
  using detect_anomalies_in_place
    [of rescored_heap 0 "[[50, 2], [55, 2], [5000, 1]]" "1 / 2" example_lib 7]
  by (simp add: rescored_heap_wf rescored_heap_matrix)

text \<open>
  The claim C9 as stated fails on a frame that was scored before: its column
  \<open>anomaly_score\<close> exists before the call and is not left unchanged.
\<close>

theorem preexisting_score_column_overwritten:
  "getitem (rescored_heap 0) ''anomaly_score'' = Inr [Num 0, Num 0, Num 0] \<and>
   fst (detect_anomalies example_lib 7 rescored_heap 0 (1 / 2)) = Inr 0 \<and>
   getitem (snd (detect_anomalies example_lib 7 rescored_heap 0 (1 / 2)) 0) ''anomaly_score''
     = Inr [Num 50, Num 55, Num 5000]"
proof -
  obtain t where
    res: "detect_anomalies example_lib 7 rescored_heap 0 (1 / 2) =
             (Inr 0, rescored_heap(0 := (rescored_heap 0)\<lparr>cols :=
                assign_col (assign_col (cols (rescored_heap 0)) ''anomaly_score''
                    (map Num (anomaly_scores example_lib (1 / 2) [[50, 2], [55, 2], [5000, 1]])))
                  ''is_anomaly''
                  (map (\<lambda>s. Flag (t \<le> s)) (anomaly_scores example_lib (1 / 2) [[50, 2], [55, 2], [5000, 1]]))\<rparr>))"
    using detect_anomalies_result[where h=rescored_heap and df=0, OF rescored_heap_wf rescored_heap_matrix,
        of "1 / 2" example_lib 7] by auto
  have before: "getitem (rescored_heap 0) ''anomaly_score'' = Inr [Num 0, Num 0, Num 0]"
    by (simp add: rescored_heap_def rescored_frame_def getitem_def)
  have after: "getitem (snd (detect_anomalies example_lib 7 rescored_heap 0 (1 / 2)) 0) ''anomaly_score''
     = Inr [Num 50, Num 55, Num 5000]"
    unfolding res by (simp add: getitem_def map_of_assign_col anomaly_scores_def example_lib_def)
  show ?thesis using before after by (simp add: res)
qed




section \<open>Feature aggregation\<close>

lemma groupby_nonempty: "(k, g) \<in> set (groupby key rows) \<Longrightarrow> g \<noteq> []"
  by (auto simp: groupby_def filter_empty_conv)

lemma groupby_Nil_iff: "groupby key rows = [] \<longleftrightarrow> rows = []"
  by (auto simp: groupby_def) (metis length_0_conv length_sort list.map_disc_iff remdups_eq_nil_iff)+

lemma single_list_nulls:
  "length g = 1 \<Longrightarrow> std (map amount g) = NaN \<and> avg_delay (map transaction_date g) = NaN"
  by (cases g) (auto simp: std_def avg_delay_def mean_def)

text \<open>
  An account with exactly one transaction gets a missing \<open>std_amount\<close> and a missing
  \<open>avg_delay_days\<close>, not zeros.
\<close>

lemma single_transaction_yields_nulls:
  assumes "f \<in> set (features df_tx n)" "tx_count f = 1"
  shows "std_amount f = NaN \<and> avg_delay_days f = NaN"
  using assms by (auto simp: features_def single_list_nulls)

lemma example_features:
  "features (fact_transactions example_db) 3 =
    [\<lparr>key_account_id = 1, avg_amount = Finite 50, std_amount = NaN, tx_count = 1,
      avg_delay_days = NaN, tx_count_per_day = Finite (1 / 3)\<rparr>,
     \<lparr>key_account_id = 2, avg_amount = Finite 11, std_amount = Finite (sqrt 2), tx_count = 2,
      avg_delay_days = Finite 2, tx_count_per_day = Finite (2 / 3)\<rparr>]"
  by (simp add: features_def example_db_def tx_def groupby_def true_divide_def mean_def std_def
      avg_delay_def day_def power2_eq_square)

lemma example_score_default_X:
  "score_default_X example_db 1 = Inr [[Finite 50, NaN, Finite (1 / 3), NaN]]"
  by (simp add: score_default_X_def example_db_def tx_def mean_def std_def avg_delay_def
      true_divide_def nunique_def)

lemma example_default_scoring:
  "default_scoring nan_rejecting example_db = Inr
    [(\<lparr>key_account_id = 1, avg_amount = Finite 50, std_amount = NaN, tx_count = 1,
       avg_delay_days = NaN, tx_count_per_day = Finite (1 / 3)\<rparr>, 1 / 2),
     (\<lparr>key_account_id = 2, avg_amount = Finite 11, std_amount = Finite (sqrt 2), tx_count = 2,
       avg_delay_days = Finite 2, tx_count_per_day = Finite (2 / 3)\<rparr>, 1 / 2)]"
proof -
  have n: "nunique (dim_time example_db) = 3" by (simp add: nunique_def example_db_def)
  have imp: "SimpleImputer_fit_transform
      [[Finite 50, NaN, Finite (1 / 3), NaN], [Finite 11, Finite (sqrt 2), Finite (2 / 3), Finite 2]]
      = Inr [[50, sqrt 2, 1 / 3, 2], [11, sqrt 2, 2 / 3, 2]]"
    by (simp add: SimpleImputer_fit_transform_def infinite_entry_def mean_def upt_rec numeral_nat)
  show ?thesis
    by (simp add: default_scoring_def n example_features imp nan_rejecting_def)
qed

lemma example_merge:
  "merge (fact_transactions example_db) (dim_accounts example_db) =
    [(tx 1 1 50 0 1, \<lparr>account_id_acct = 1, client_id_acct = 1, account_type = ''checking'',
                      opened_date = - (10 * day)\<rparr>),
     (tx 2 2 10 (3 * day) 2, \<lparr>account_id_acct = 2, client_id_acct = 2, account_type = ''savings'',
                      opened_date = - (20 * day)\<rparr>),
     (tx 3 2 12 (5 * day) 2, \<lparr>account_id_acct = 2, client_id_acct = 2, account_type = ''savings'',
                      opened_date = - (20 * day)\<rparr>)]"
  by (simp add: merge_def example_db_def tx_def)

lemma example_merge_sorted:
  "sort_key (\<lambda>r. (client_id (fst r), transaction_date (fst r)))
     (merge (fact_transactions example_db) (dim_accounts example_db))
   = merge (fact_transactions example_db) (dim_accounts example_db)"
  by (simp add: example_merge tx_def day_def)

lemma example_groups:
  "groupby (\<lambda>r. client_id (fst r)) (merge (fact_transactions example_db) (dim_accounts example_db)) =
    [(1, [(tx 1 1 50 0 1, \<lparr>account_id_acct = 1, client_id_acct = 1, account_type = ''checking'',
                           opened_date = - (10 * day)\<rparr>)]),
     (2, [(tx 2 2 10 (3 * day) 2, \<lparr>account_id_acct = 2, client_id_acct = 2, account_type = ''savings'',
                           opened_date = - (20 * day)\<rparr>),
          (tx 3 2 12 (5 * day) 2, \<lparr>account_id_acct = 2, client_id_acct = 2, account_type = ''savings'',
                           opened_date = - (20 * day)\<rparr>)])]"
  by (simp add: example_merge groupby_def tx_def)

lemma upt_0_2: "[0..<2] = [0, 1]"
  by (simp add: upt_rec numeral_nat)

text \<open>
  Claim C4, as the code has it. With a day count of 0 and at least one transaction, the
  aggregation raises nothing: it yields a feature row for every account, and the
  \<open>tx_count_per_day\<close> of every row is positive infinity.
\<close>

theorem tx_count_per_day_zero_days_infinite:
  assumes "df_tx \<noteq> []"
  shows "features df_tx 0 \<noteq> [] \<and> (\<forall>f \<in> set (features df_tx 0). tx_count_per_day f = PosInf)"
proof
  show "features df_tx 0 \<noteq> []"
    using assms by (simp add: features_def groupby_Nil_iff) (metis length_0_conv length_sort)
  show "\<forall>f \<in> set (features df_tx 0). tx_count_per_day f = PosInf"
    by (auto simp: features_def true_divide_def dest: groupby_nonempty)
qed

theorem tx_count_per_day_zero_days_infinite_witness:
  "fact_transactions example_db \<noteq> [] \<and>
   features (fact_transactions example_db) 0 \<noteq> [] \<and>
   tx_count_per_day (hd (features (fact_transactions example_db) 0)) = PosInf"
proof -
  have ne: "fact_transactions example_db \<noteq> []" by (simp add: example_db_def)
  from tx_count_per_day_zero_days_infinite [OF ne]
  show ?thesis using ne by simp
qed

text \<open>
  The claim C4 as stated fails: with no day in the time dimension, the aggregation of the
  example returns its rows with an infinite count per day, and the endpoint builds a feature
  row with it; no error is raised by the division.
\<close>

theorem zero_days_no_division_error:
  "nunique (dim_time (example_db\<lparr>dim_time := []\<rparr>)) = 0 \<and>
   map tx_count_per_day (features (fact_transactions (example_db\<lparr>dim_time := []\<rparr>)) 0)
     = [PosInf, PosInf] \<and>
   score_default_X (example_db\<lparr>dim_time := []\<rparr>) 1 = Inr [[Finite 50, NaN, PosInf, NaN]]"
proof -
  have "map tx_count_per_day (features (fact_transactions (example_db\<lparr>dim_time := []\<rparr>)) 0)
      = [PosInf, PosInf]"
    by (simp add: features_def example_db_def tx_def groupby_def true_divide_def)
  moreover have "score_default_X (example_db\<lparr>dim_time := []\<rparr>) 1
      = Inr [[Finite 50, NaN, PosInf, NaN]]"
    by (simp add: score_default_X_def example_db_def tx_def mean_def std_def avg_delay_def
        true_divide_def nunique_def)
  ultimately show ?thesis by (simp add: nunique_def)
qed

text \<open>
  Claim C5, at the input where the code departs from it. Account 1 of the example has
  exactly one transaction. The endpoint \<open>score_default\<close> builds its feature row with the
  two missing values and hands it to the classifier as it is, so a classifier that rejects
  missing values fails the request; the pipeline imputes the same rows and scores them.
\<close>

theorem score_default_passes_nulls_unimputed:
  "score_default_X example_db 1 = Inr [[Finite 50, NaN, Finite (1 / 3), NaN]] \<and>
   score_default nan_rejecting example_db 1 = Inl ValueError \<and>
   map snd (case default_scoring nan_rejecting example_db of Inl e \<Rightarrow> [] | Inr rows \<Rightarrow> rows)
     = [1 / 2, 1 / 2]"
  by (simp add: score_default_def example_score_default_X example_default_scoring nan_rejecting_def)

lemma churn_agg_clock_columns:
  "map (\<lambda>f. (tenure_days f, days_since_last f)) (churn_agg today df) = whole_day_readings today df"
  by (simp add: churn_agg_def whole_day_readings_def Let_def split_def comp_def)

lemma churn_agg_eq_iff:
  "churn_agg today1 df = churn_agg today2 df
     \<longleftrightarrow> whole_day_readings today1 df = whole_day_readings today2 df"
proof
  assume "churn_agg today1 df = churn_agg today2 df"
  then have "map (\<lambda>f. (tenure_days f, days_since_last f)) (churn_agg today1 df)
      = map (\<lambda>f. (tenure_days f, days_since_last f)) (churn_agg today2 df)" by simp
  then show "whole_day_readings today1 df = whole_day_readings today2 df"
    by (simp only: churn_agg_clock_columns)
next
  let ?groups = "groupby (\<lambda>r. client_id (fst r)) df"
  let ?zs = "zip [0..<length ?groups] ?groups"
  let ?W = "\<lambda>today p. ((today (fst p) - Min (set (map (\<lambda>r. opened_date (snd r)) (snd (snd p))))) div day,
                (today (length ?groups + fst p)
                   - Max (set (map (\<lambda>r. transaction_date (fst r)) (snd (snd p))))) div day)"
  let ?B = "\<lambda>p w. \<lparr>key_client_id = fst (snd p), tenure_days = fst w,
                avg_balance = mean (map (\<lambda>r. amount (fst r)) (snd (snd p))),
                total_tx_count = length (snd (snd p)), days_since_last = snd w\<rparr>"
  have W: "whole_day_readings today df = map (?W today) ?zs" for today
    by (simp add: whole_day_readings_def Let_def split_def)
  have F: "churn_agg today df = map (\<lambda>p. ?B p (?W today p)) ?zs" for today
    by (simp add: churn_agg_def Let_def split_def)
  assume "whole_day_readings today1 df = whole_day_readings today2 df"
  then have "map (?W today1) ?zs = map (?W today2) ?zs" by (simp only: W)
  then have "\<forall>p \<in> set ?zs. ?W today1 p = ?W today2 p" by (simp only: map_eq_conv)
  then have "map (\<lambda>p. ?B p (?W today1 p)) ?zs = map (\<lambda>p. ?B p (?W today2 p)) ?zs"
    by (intro map_cong) auto
  then show "churn_agg today1 df = churn_agg today2 df" by (simp only: F)
qed

lemma example_whole_days:
  "whole_day_readings first_run_clock (merge (fact_transactions example_db) (dim_accounts example_db))
     = [(40, 30), (50, 25)]"
  "whole_day_readings later_clock (merge (fact_transactions example_db) (dim_accounts example_db))
     = [(40, 30), (50, 25)]"
  by (simp_all add: whole_day_readings_def example_groups upt_0_2 tx_def first_run_clock_def
      later_clock_def day_def)

text \<open>
  Claim C8, as the code has it. In any two runs on the same datamart the features per
  account are identical, and so are the client, the average balance and the transaction
  count of the features per client. The tenure and the recency are computed from the wall
  clock read inside the aggregation, as whole days: the features per client of two runs are
  identical exactly when, for every client, the whole days from the earliest opening date
  and from the latest transaction to the clock readings are the same in both runs. Two runs
  at different instants agree unless one of these day counts changes between them.
\<close>

theorem aggregation_reproducible_by_whole_days:
  "fst (aggregate today1 db) = fst (aggregate today2 db) \<and>
   map (\<lambda>f. (key_client_id f, avg_balance f, total_tx_count f)) (snd (aggregate today1 db))
     = map (\<lambda>f. (key_client_id f, avg_balance f, total_tx_count f)) (snd (aggregate today2 db)) \<and>
   map (\<lambda>f. (key_client_id f, avg_balance f, total_tx_count f))
       (model_churn_features today1 df_tx df_acct)
     = map (\<lambda>f. (key_client_id f, avg_balance f, total_tx_count f))
       (model_churn_features today2 df_tx df_acct) \<and>
   (snd (aggregate today1 db) = snd (aggregate today2 db) \<longleftrightarrow>
      whole_day_readings today1 (merge (fact_transactions db) (dim_accounts db))
        = whole_day_readings today2 (merge (fact_transactions db) (dim_accounts db))) \<and>
   (model_churn_features today1 df_tx df_acct = model_churn_features today2 df_tx df_acct \<longleftrightarrow>
      whole_day_readings today1
          (sort_key (\<lambda>r. (client_id (fst r), transaction_date (fst r))) (merge df_tx df_acct))
        = whole_day_readings today2
          (sort_key (\<lambda>r. (client_id (fst r), transaction_date (fst r))) (merge df_tx df_acct)))"
proof -
  have proj: "map (\<lambda>f. (key_client_id f, avg_balance f, total_tx_count f)) (churn_agg t1 df)
      = map (\<lambda>f. (key_client_id f, avg_balance f, total_tx_count f)) (churn_agg t2 df)" for t1 t2 df
    by (simp add: churn_agg_def Let_def split_def comp_def)
  show ?thesis
    using proj by (simp add: aggregate_def features_churn_def model_churn_features_def churn_agg_eq_iff)
qed

theorem aggregation_reproducible_by_whole_days_witness:
  "first_run_clock 0 \<noteq> later_clock 0 \<and>
   whole_day_readings first_run_clock (merge (fact_transactions example_db) (dim_accounts example_db))
     = whole_day_readings later_clock (merge (fact_transactions example_db) (dim_accounts example_db)) \<and>
   snd (aggregate first_run_clock example_db) = snd (aggregate later_clock example_db) \<and>
   model_churn_features first_run_clock (fact_transactions example_db) (dim_accounts example_db)
     = model_churn_features later_clock (fact_transactions example_db) (dim_accounts example_db)"
  using aggregation_reproducible_by_whole_days [of first_run_clock example_db later_clock "fact_transactions example_db"
        "dim_accounts example_db"]
  by (simp add: example_whole_days example_merge_sorted first_run_clock_def later_clock_def)

text \<open>
  The claim C8 as stated fails for the churn variant: the same tables aggregated on day 30
  and on day 31 give different tenures.
\<close>

theorem churn_features_depend_on_clock:
  "map tenure_days (model_churn_features first_run_clock (fact_transactions example_db)
       (dim_accounts example_db)) = [40, 50] \<and>
   map tenure_days (model_churn_features second_run_clock (fact_transactions example_db)
       (dim_accounts example_db)) = [41, 51]"
  by (simp add: model_churn_features_def example_merge_sorted churn_agg_def example_groups upt_0_2
      first_run_clock_def second_run_clock_def day_def)

section \<open>The pipeline and its report\<close>

lemma map_nth_upt: "map (\<lambda>j. f (idx ! j)) [0..<length idx] = map f idx"
proof -
  have "map (\<lambda>j. f (idx ! j)) [0..<length idx] = map f (map (\<lambda>j. idx ! j) [0..<length idx])"
    by (simp add: comp_def)
  also have "\<dots> = map f idx" by (simp only: map_nth)
  finally show ?thesis .
qed

lemma to_dict_records_mask:
  "to_dict_records (mask_rows m df) =
     map (\<lambda>i. map (\<lambda>(k, v). (k, v ! i)) (cols df)) (filter (\<lambda>i. m ! i = Flag True) [0..<nrows df])"
proof -
  let ?idx = "filter (\<lambda>i. m ! i = Flag True) [0..<nrows df]"
  have "to_dict_records (mask_rows m df)
      = map (\<lambda>j. map (\<lambda>(k, v). (k, v ! (?idx ! j))) (cols df)) [0..<length ?idx]"
    by (simp add: to_dict_records_def mask_rows_def Let_def split_def comp_def)
  also have "\<dots> = map (\<lambda>i. map (\<lambda>(k, v). (k, v ! i)) (cols df)) ?idx"
    by (rule map_nth_upt)
  finally show ?thesis .
qed

lemma map_of_row:
  "map_of (map (\<lambda>(k, v). (k, v ! i)) cs) name = map_option (\<lambda>v. v ! i) (map_of cs name)"
  by (induction cs) auto

lemma anomalies_are_flagged_records:
  assumes "getitem df ''is_anomaly'' = Inr m"
  shows "to_dict_records (mask_rows m df)
       = filter (\<lambda>r. map_of r ''is_anomaly'' = Some (Flag True)) (to_dict_records df)"
proof -
  have m: "map_of (cols df) ''is_anomaly'' = Some m"
    using assms by (auto simp: getitem_def split: option.splits)
  show ?thesis
    unfolding to_dict_records_mask
    by (simp add: to_dict_records_def filter_map comp_def map_of_row m)
qed

lemma features_keys:
  "map key_account_id (features df_tx n) = sort (remdups (map account_id df_tx))"
proof -
  have "map key_account_id (features df_tx n)
      = sort (remdups (map account_id (sort_key (\<lambda>t. (account_id t, transaction_date t)) df_tx)))"
    by (simp add: features_def groupby_def comp_def split_def)
  also have "\<dots> = sort (remdups (map account_id df_tx))"
    by (intro sorted_distinct_set_unique) simp_all
  finally show ?thesis .
qed

lemma map_snd_zip_fun:
  "length xs = length ys \<Longrightarrow> map (\<lambda>p. f (snd p)) (zip xs ys) = map f ys"
  by (induction xs ys rule: list_induct2) auto

lemma churn_agg_keys:
  "map key_client_id (churn_agg today df) = sort (remdups (map (\<lambda>r. client_id (fst r)) df))"
proof -
  let ?groups = "groupby (\<lambda>r. client_id (fst r)) df"
  have "map key_client_id (churn_agg today df)
      = map (\<lambda>p. fst (snd p)) (zip [0..<length ?groups] ?groups)"
    by (simp add: churn_agg_def Let_def split_def comp_def)
  also have "\<dots> = map fst ?groups" by (rule map_snd_zip_fun) simp
  also have "\<dots> = sort (remdups (map (\<lambda>r. client_id (fst r)) df))"
    by (simp add: groupby_def comp_def)
  finally show ?thesis .
qed

lemma default_scoring_keys:
  assumes "default_scoring clf db = Inr rows"
  shows "map (\<lambda>(f, p). key_account_id f) rows = sort (remdups (map account_id (fact_transactions db)))"
proof -
  from assms obtain ps where "length ps = length (features (fact_transactions db) (nunique (dim_time db)))"
    and "rows = zip (features (fact_transactions db) (nunique (dim_time db))) ps"
    by (auto simp: default_scoring_def Let_def split: sum.splits if_splits)
  then have "map fst rows = features (fact_transactions db) (nunique (dim_time db))" by simp
  then have "map key_account_id (map fst rows) = sort (remdups (map account_id (fact_transactions db)))"
    by (simp add: features_keys)
  then show ?thesis by (simp add: split_def comp_def)
qed

lemma churn_prediction_keys:
  assumes "churn_prediction today clf db = Inr rows"
  shows "map (\<lambda>(f, p). key_client_id f) rows
       = sort (remdups (map (\<lambda>r. client_id (fst r)) (merge (fact_transactions db) (dim_accounts db))))"
proof -
  let ?F = "features_churn today (fact_transactions db) (dim_accounts db)"
  from assms obtain ps where "length ps = length ?F" and "rows = zip ?F ps"
    by (auto simp: churn_prediction_def Let_def split: sum.splits if_splits)
  then have "map fst rows = ?F" by simp
  then have "map key_client_id (map fst rows)
      = sort (remdups (map (\<lambda>r. client_id (fst r)) (merge (fact_transactions db) (dim_accounts db))))"
    by (simp add: features_churn_def churn_agg_keys)
  then show ?thesis by (simp add: split_def comp_def)
qed

text \<open>
  Claim C7. A run of the pipeline that completes writes exactly one report. The report has
  exactly the four keys \<open>timestamp\<close>, \<open>default_risk_summary\<close>, \<open>churn_risk_summary\<close>
  and \<open>anomalies\<close>, in this order; the default summary has one record per account with
  transactions and the churn summary one record per client of the merged transactions, in
  ascending order of the identifier; the anomalies are the records of the scored frame that
  are flagged \<open>is_anomaly\<close>, and no other record.
\<close>

theorem pipeline_report:
  assumes "pipeline e db = Inr out"
  shows "\<exists>path report drs crs df_anom.
     out = [(path, report)] \<and>
     map fst report = [''timestamp'', ''default_risk_summary'', ''churn_risk_summary'', ''anomalies''] \<and>
     map_of report ''default_risk_summary'' = Some (JRecords drs) \<and>
     map (\<lambda>r. map_of r ''account_id'') drs
       = map (\<lambda>k. Some (IntC k)) (sort (remdups (map account_id (fact_transactions db)))) \<and>
     map_of report ''churn_risk_summary'' = Some (JRecords crs) \<and>
     map (\<lambda>r. map_of r ''client_id'') crs
       = map (\<lambda>k. Some (IntC k))
           (sort (remdups (map (\<lambda>r. client_id (fst r)) (merge (fact_transactions db) (dim_accounts db))))) \<and>
     anomaly_detection e db = Inr df_anom \<and>
     map_of report ''anomalies''
       = Some (JRecords (filter (\<lambda>r. map_of r ''is_anomaly'' = Some (Flag True)) (to_dict_records df_anom)))"
proof -
  from assms obtain fd fc df_anom m where
    d: "default_scoring (def_model_of e) db = Inr fd" and
    c: "churn_prediction (today_at e) (churn_model_of e) db = Inr fc" and
    a: "anomaly_detection e db = Inr df_anom" and
    m: "getitem df_anom ''is_anomaly'' = Inr m" and
    out: "out = [(''report_'' @ utcnow_stamp e @ ''.json'',
        [(''timestamp'', JString (utcnow_isoformat e)),
         (''default_risk_summary'',
            JRecords (map (\<lambda>(f, p). [(''account_id'', IntC (key_account_id f)), (''default_risk'', Num p)]) fd)),
         (''churn_risk_summary'',
            JRecords (map (\<lambda>(f, p). [(''client_id'', IntC (key_client_id f)), (''churn_risk'', Num p)]) fc)),
         (''anomalies'', JRecords (to_dict_records (mask_rows m df_anom)))])]"
    by (auto simp: pipeline_def Let_def split: sum.splits)
  have k1: "map (\<lambda>r. map_of r ''account_id'')
        (map (\<lambda>(f, p). [(''account_id'', IntC (key_account_id f)), (''default_risk'', Num p)]) fd)
      = map (\<lambda>k. Some (IntC k)) (sort (remdups (map account_id (fact_transactions db))))"
    using default_scoring_keys[OF d, symmetric] by (simp add: comp_def split_def)
  have k2: "map (\<lambda>r. map_of r ''client_id'')
        (map (\<lambda>(f, p). [(''client_id'', IntC (key_client_id f)), (''churn_risk'', Num p)]) fc)
      = map (\<lambda>k. Some (IntC k))
           (sort (remdups (map (\<lambda>r. client_id (fst r)) (merge (fact_transactions db) (dim_accounts db)))))"
    using churn_prediction_keys[OF c, symmetric] by (simp add: comp_def split_def)
  show ?thesis
    apply (rule exI, rule exI, rule exI, rule exI, rule exI[of _ df_anom])
    apply (intro conjI)
           apply (rule out)
          apply simp
         apply simp
        apply (rule k1)
       apply simp
      apply (rule k2)
     apply (rule a)
    apply (simp add: anomalies_are_flagged_records[OF m])
    done
qed

lemma sequence_map_Inr: "sequence (map (\<lambda>x. Inr (f x)) xs) = Inr (map f xs)"
  by (induction xs) auto

lemma load_data_wf: "wf_frame (load_data db)"
  by (simp add: load_data_def wf_frame_def Let_def)

lemma load_data_matrix:
  "feature_matrix (load_data db) =
     Inr (map (\<lambda>t. [amount t,
            real (length (filter (\<lambda>u. account_id u = account_id t) (fact_transactions db)))])
          (fact_transactions db))"
  by (simp add: feature_matrix_def load_data_def Let_def getitem_def sequence_map_Inr comp_def
      zip_map_map zip_same_conv_map)

lemma load_data_nrows: "nrows (load_data db) = length (fact_transactions db)"
  by (simp add: load_data_def Let_def)

lemma load_data_dates:
  "map_of (cols (load_data db)) ''transaction_date''
     = Some (map (\<lambda>t. Date (transaction_date t)) (fact_transactions db))"
  by (simp add: load_data_def Let_def)

lemma detect_anomalies_frame:
  assumes wf: "wf_frame (h df)" and X: "feature_matrix (h df) = Inr X" and ne: "X \<noteq> []"
    and c: "0 < c" "c \<le> 1 / 2"
  shows "fst (detect_anomalies lib g h df c) = Inr df"
    and "nrows (snd (detect_anomalies lib g h df c) df) = nrows (h df)"
    and "k \<noteq> ''anomaly_score'' \<Longrightarrow> k \<noteq> ''is_anomaly'' \<Longrightarrow>
           map_of (cols (snd (detect_anomalies lib g h df c) df)) k = map_of (cols (h df)) k"
    and "\<exists>m. map_of (cols (snd (detect_anomalies lib g h df c) df)) ''is_anomaly'' = Some m"
proof -
  from detect_anomalies_result[where h=h and df=df, OF wf X ne c, of lib g]
  obtain t where
    res: "detect_anomalies lib g h df c =
             (Inr df, h(df := (h df)\<lparr>cols :=
                assign_col (assign_col (cols (h df)) ''anomaly_score'' (map Num (anomaly_scores lib c X)))
                  ''is_anomaly'' (map (\<lambda>s. Flag (t \<le> s)) (anomaly_scores lib c X))\<rparr>))"
    by (elim exE conjE)
  show "fst (detect_anomalies lib g h df c) = Inr df" by (simp add: res)
  show "nrows (snd (detect_anomalies lib g h df c) df) = nrows (h df)" by (simp add: res)
  show "k \<noteq> ''anomaly_score'' \<Longrightarrow> k \<noteq> ''is_anomaly'' \<Longrightarrow>
           map_of (cols (snd (detect_anomalies lib g h df c) df)) k = map_of (cols (h df)) k"
    by (simp add: res map_of_assign_col)
  show "\<exists>m. map_of (cols (snd (detect_anomalies lib g h df c) df)) ''is_anomaly'' = Some m"
    by (simp add: res map_of_assign_col)
qed

lemma anomaly_detection_completes:
  assumes "fact_transactions db \<noteq> []"
  shows "\<exists>df m. anomaly_detection e db = Inr df \<and> getitem df ''is_anomaly'' = Inr m"
proof -
  define h0 where "h0 = (\<lambda>r::nat. empty_frame)(0 := load_data db)"
  define res where "res = detect_anomalies (forest_of e) (global_rng e) h0 0 (5 / 100)"
  let ?X = "map (\<lambda>t. [amount t,
            real (length (filter (\<lambda>u. account_id u = account_id t) (fact_transactions db)))])
          (fact_transactions db)"
  have h00: "h0 0 = load_data db" by (simp add: h0_def)
  have wf: "wf_frame (h0 0)" by (simp add: h00 load_data_wf)
  have X: "feature_matrix (h0 0) = Inr ?X" by (simp add: h00 load_data_matrix)
  have ne: "?X \<noteq> []" using assms by simp
  have c: "(0::real) < 5 / 100" "(5::real) / 100 \<le> 1 / 2" by simp_all
  note fr = detect_anomalies_frame[where h=h0 and df=0 and lib="forest_of e" and g="global_rng e",
      OF wf X ne c, folded res_def]
  obtain m where m: "map_of (cols (snd res 0)) ''is_anomaly'' = Some m"
    using fr(4) by blast
  have d: "map_of (cols (snd res 0)) ''transaction_date''
      = Some (map (\<lambda>t. Date (transaction_date t)) (fact_transactions db))"
    using fr(3)[of "''transaction_date''"] by (simp add: h00 load_data_dates)
  have n: "nrows (snd res 0) = length (fact_transactions db)"
    using fr(2) by (simp add: h00 load_data_nrows)
  have r: "res = (Inr 0, snd res)" using fr(1) by (cases res) simp
  have "anomaly_detection e db
      = (case res of (Inl err, h) \<Rightarrow> Inl err
         | (Inr r, h) \<Rightarrow>
             (case map_of (cols (h r)) ''transaction_date'' of
                   None \<Rightarrow> Inr (h r)
                 | Some v \<Rightarrow> setitem (h r) ''transaction_date'' (map (\<lambda>c. Txt (str_of e c)) v)))"
    unfolding anomaly_detection_def Let_def res_def h0_def by (rule refl)
  also have "\<dots> = setitem (snd res 0) ''transaction_date''
        (map (\<lambda>c. Txt (str_of e c)) (map (\<lambda>t. Date (transaction_date t)) (fact_transactions db)))"
    by (subst r) (simp add: d)
  also have "\<dots> = Inr ((snd res 0)\<lparr>cols := assign_col (cols (snd res 0)) ''transaction_date''
        (map (\<lambda>c. Txt (str_of e c)) (map (\<lambda>t. Date (transaction_date t)) (fact_transactions db)))\<rparr>)"
    by (simp add: setitem_def n)
  finally have a: "anomaly_detection e db = Inr ((snd res 0)\<lparr>cols := assign_col (cols (snd res 0)) ''transaction_date''
        (map (\<lambda>c. Txt (str_of e c)) (map (\<lambda>t. Date (transaction_date t)) (fact_transactions db)))\<rparr>)" .
  show ?thesis
    unfolding a by (simp add: getitem_def map_of_assign_col m)
qed

lemma example_churn_prediction:
  "\<exists>rows. churn_prediction first_run_clock nan_rejecting example_db = Inr rows"
proof -
  have f: "features_churn first_run_clock (fact_transactions example_db) (dim_accounts example_db)
      = [\<lparr>key_client_id = 1, tenure_days = 40, avg_balance = Finite 50, total_tx_count = 1,
          days_since_last = 30\<rparr>,
         \<lparr>key_client_id = 2, tenure_days = 50, avg_balance = Finite 11, total_tx_count = 2,
          days_since_last = 25\<rparr>]"
    by (simp add: features_churn_def churn_agg_def example_groups upt_0_2 mean_def tx_def
        first_run_clock_def day_def)
  show ?thesis
    by (simp add: churn_prediction_def f nan_rejecting_def)
qed

theorem pipeline_report_witness:
  "\<exists>out. pipeline example_env example_db = Inr out \<and>
     (\<exists>path report drs crs df_anom.
     out = [(path, report)] \<and>
     map fst report = [''timestamp'', ''default_risk_summary'', ''churn_risk_summary'', ''anomalies''] \<and>
     map_of report ''default_risk_summary'' = Some (JRecords drs) \<and>
     map (\<lambda>r. map_of r ''account_id'') drs
       = map (\<lambda>k. Some (IntC k)) (sort (remdups (map account_id (fact_transactions example_db)))) \<and>
     map_of report ''churn_risk_summary'' = Some (JRecords crs) \<and>
     map (\<lambda>r. map_of r ''client_id'') crs
       = map (\<lambda>k. Some (IntC k))
           (sort (remdups (map (\<lambda>r. client_id (fst r))
              (merge (fact_transactions example_db) (dim_accounts example_db))))) \<and>
     anomaly_detection example_env example_db = Inr df_anom \<and>
     map_of report ''anomalies''
       = Some (JRecords (filter (\<lambda>r. map_of r ''is_anomaly'' = Some (Flag True)) (to_dict_records df_anom))))"
proof -
  have ne: "fact_transactions example_db \<noteq> []" by (simp add: example_db_def)
  obtain df m where a: "anomaly_detection example_env example_db = Inr df"
    and m: "getitem df ''is_anomaly'' = Inr m"
    using anomaly_detection_completes[OF ne] by blast
  obtain rows where c: "churn_prediction first_run_clock nan_rejecting example_db = Inr rows"
    using example_churn_prediction by blast
  have e: "def_model_of example_env = nan_rejecting" "churn_model_of example_env = nan_rejecting"
    "today_at example_env = first_run_clock"
    by (simp_all add: example_env_def)
  have "\<exists>out. pipeline example_env example_db = Inr out"
    by (simp add: pipeline_def e example_default_scoring c a m)
  then obtain out where out: "pipeline example_env example_db = Inr out" by blast
  note concl = pipeline_report [OF out]
  show ?thesis
    apply (rule exI[of _ out])
    apply (rule conjI)
     apply (rule out)
    apply (rule concl)
    done
qed

end
